theory Spec2Isabelle
  imports Main "HOL-Library.Sublist"
begin

section \<open>Strings\<close>

text \<open>
  A Go string is a sequence of bytes; it is modelled as a \<open>string\<close> (a list of
  \<open>char\<close>). The characters the code looks for (\<open>/\<close>, \<open>:\<close>, \<open>,\<close>) are ASCII, and no byte
  of a multi-byte UTF-8 sequence is ASCII, so scanning bytes and scanning runes agree.
\<close>

text \<open>\<open>strings.Contains(s, substr)\<close>: \<open>substr\<close> occurs in \<open>s\<close> at some position.\<close>

fun Contains :: "string \<Rightarrow> string \<Rightarrow> bool" where
  "Contains [] substr = (substr = [])"
| "Contains (c # s) substr = (prefix substr (c # s) \<or> Contains s substr)"

text \<open>
  \<open>strings.Split(s, sep)\<close> for a separator that is not empty: the pieces of \<open>s\<close> between
  the occurrences of \<open>sep\<close>, found from the left; \<open>cur\<close> is the piece being read. (With an
  empty separator Go splits after each UTF-8 sequence; no call of the code does that, and
  the model then splits after each byte.)
\<close>

function genSplit :: "string \<Rightarrow> string \<Rightarrow> string \<Rightarrow> string list" where
  "genSplit sep cur s =
     (if s = [] then [cur]
      else if sep \<noteq> [] \<and> prefix sep s then cur # genSplit sep [] (drop (length sep) s)
      else genSplit sep (cur @ [hd s]) (tl s))"
  by pat_completeness auto
termination
  by (relation "measure (\<lambda>(sep, cur, s). length s)") auto

definition Split :: "string \<Rightarrow> string \<Rightarrow> string list" where
  "Split s sep = (if sep = [] then map (\<lambda>c. [c]) s else genSplit sep [] s)"

section \<open>The media type check of \<open>pkg/webhook/mediatype.go\<close>\<close>

text \<open>
  An \<open>error\<close> value is modelled by the message it was built with; a Go result
  \<open>(v, err)\<close> is a pair whose second component is \<open>None\<close> for \<open>nil\<close>.
\<close>

datatype error = Errorf string

definition mediaTypeFormat :: string where
  "mediaTypeFormat = ''application/external.dns.webhook+json;''"

definition supportedMediaVersions :: string where
  "supportedMediaVersions = ''1''"

definition mediaTypeVersion :: "string \<Rightarrow> string" where
  "mediaTypeVersion v = mediaTypeFormat @ ''version='' @ v"

definition Is :: "string \<Rightarrow> string \<Rightarrow> bool" where
  "Is m headerValue = (m = headerValue)"

text \<open>The first loop of \<open>checkAndGetMediaTypeHeaderValue\<close>: the first version that matches.\<close>

fun firstSupported :: "string list \<Rightarrow> string \<Rightarrow> string option" where
  "firstSupported [] value = None"
| "firstSupported (v # vs) value =
     (if Is (mediaTypeVersion v) value then Some v else firstSupported vs value)"

text \<open>
  The second loop builds the list of the supported media types; \<open>i\<close> is the index of
  \<open>v\<close>. The bound the source compares \<open>i\<close> with is the length of the string
  \<open>supportedMediaVersions\<close> less one, in Go's \<open>int\<close>.
\<close>

fun supportedMediaTypes :: "nat \<Rightarrow> string list \<Rightarrow> string \<Rightarrow> string" where
  "supportedMediaTypes i [] acc = acc"
| "supportedMediaTypes i (v # vs) acc =
     (let sep = (if int i < int (length supportedMediaVersions) - 1 then '', '' else '''')
      in supportedMediaTypes (Suc i) vs (acc @ mediaTypeVersion v @ sep))"

definition checkAndGetMediaTypeHeaderValue :: "string \<Rightarrow> string \<times> error option" where
  "checkAndGetMediaTypeHeaderValue value =
     (case firstSupported (Split supportedMediaVersions '','') value of
        Some v \<Rightarrow> (v, None)
      | None \<Rightarrow>
          (let supportedMediaTypesString =
                 supportedMediaTypes 0 (Split supportedMediaVersions '','') ''''
           in ('''', Some (Errorf (''Unsupported media type version: '' @ [CHR 0x27] @ value @
                 [CHR 0x27] @ ''. Supported media types are: '' @ [CHR 0x27] @
                 supportedMediaTypesString @ [CHR 0x27])))))"

section \<open>Library functions the connector calls\<close>

text \<open>
  \<open>base64.StdEncoding.EncodeToString\<close> (RFC 4648, with padding): every three bytes give
  four characters of the alphabet \<open>encodeStd\<close>; one or two remaining bytes give two or
  three characters and \<open>=\<close> up to four.
\<close>

definition encodeStd :: string where
  "encodeStd = ''ABCDEFGHIJKLMNOPQRSTUVWXYZabcdefghijklmnopqrstuvwxyz0123456789+/''"

definition sextet :: "nat \<Rightarrow> nat \<Rightarrow> char" where
  "sextet val shift = encodeStd ! (val div 2 ^ shift mod 64)"

fun EncodeToString :: "string \<Rightarrow> string" where
  "EncodeToString [] = []"
| "EncodeToString [a] =
     (let val = of_char a * 65536
      in [sextet val 18, sextet val 12, CHR ''='', CHR ''=''])"
| "EncodeToString [a, b] =
     (let val = of_char a * 65536 + of_char b * 256
      in [sextet val 18, sextet val 12, sextet val 6, CHR ''=''])"
| "EncodeToString (a # b # c # src) =
     (let val = of_char a * 65536 + of_char b * 256 + of_char c
      in [sextet val 18, sextet val 12, sextet val 6, sextet val 0] @ EncodeToString src)"

text \<open>
  \<open>regexp.MustCompile(`([^/]+)/[^:]+:([^/]+)/default`).FindStringSubmatch\<close>. Each
  repetition \<open>[^c]+\<close> of the pattern is followed by the literal \<open>c\<close>, so from a given start
  the only run that can match is the longest one, and it must not be empty:
  \<open>matchHere\<close> reads the three runs from the head of the string and gives the whole
  match and the two groups. Go takes the leftmost start that matches, and returns the nil
  slice (here \<open>[]\<close>) when there is none.
\<close>

definition matchHere :: "string \<Rightarrow> string list option" where
  "matchHere s =
     (let g1 = takeWhile (\<lambda>c. c \<noteq> CHR ''/'') s;
          r1 = dropWhile (\<lambda>c. c \<noteq> CHR ''/'') s
      in if g1 = [] \<or> r1 = [] then None
         else
           let m = takeWhile (\<lambda>c. c \<noteq> CHR '':'') (tl r1);
               r2 = dropWhile (\<lambda>c. c \<noteq> CHR '':'') (tl r1)
           in if m = [] \<or> r2 = [] then None
              else
                let g2 = takeWhile (\<lambda>c. c \<noteq> CHR ''/'') (tl r2);
                    r3 = dropWhile (\<lambda>c. c \<noteq> CHR ''/'') (tl r2)
                in if g2 = [] \<or> \<not> prefix ''/default'' r3 then None
                   else Some [g1 @ ''/'' @ m @ '':'' @ g2 @ ''/default'', g1, g2])"

fun FindStringSubmatch :: "string \<Rightarrow> string list" where
  "FindStringSubmatch [] = []"
| "FindStringSubmatch (c # s) =
     (case matchHere (c # s) of Some result \<Rightarrow> result | None \<Rightarrow> FindStringSubmatch s)"

section \<open>The mock connector of \<open>internal/infoblox/infoblox_test.go\<close>: the data\<close>

text \<open>
  The objects of the Infoblox client library, with the fields the connector reads or
  writes. A field of Go type \<open>*string\<close> that the code only dereferences is modelled by
  its pointee, \<open>None\<close> for \<open>nil\<close>. \<open>PtrdName\<close> is also compared as a pointer (in
  \<open>GetObject\<close>), so it is an address together with its pointee.
\<close>

datatype strptr = nil | Ptr nat string

record RecordA =
  Ref :: string
  Ipv4Addr :: "string option"
  Name :: "string option"
  Zone :: string

record RecordCNAME =
  Ref :: string
  Canonical :: "string option"
  Name :: "string option"
  Zone :: string

record HostRecordIpv4Addr =
  Ipv4Addr :: "string option"

record HostRecord =
  Ref :: string
  Ipv4Addrs :: "HostRecordIpv4Addr list"
  Name :: "string option"
  Zone :: string

record RecordTXT =
  Ref :: string
  Name :: "string option"
  Text :: "string option"
  Zone :: string

record RecordPTR =
  Ref :: string
  Ipv4Addr :: "string option"
  Name :: "string option"
  PtrdName :: strptr
  Zone :: string

record ZoneAuth =
  Fqdn :: string

text \<open>
  An \<open>ibclient.IBObject\<close> is one of the six object types the file builds and handles.
  \<open>ObjectType()\<close> is a constant of each Go type, so the switch on it and the type
  assertion that follows it agree.
\<close>

datatype IBObject =
    ObjA RecordA
  | ObjCNAME RecordCNAME
  | ObjHost HostRecord
  | ObjTXT RecordTXT
  | ObjPTR RecordPTR
  | ObjZoneAuth ZoneAuth

definition recordA :: string where "recordA = ''record:a''"
definition recordCname :: string where "recordCname = ''record:cname''"
definition recordHost :: string where "recordHost = ''record:host''"
definition recordTxt :: string where "recordTxt = ''record:txt''"
definition recordPtr :: string where "recordPtr = ''record:ptr''"

fun ObjectType :: "IBObject \<Rightarrow> string" where
  "ObjectType (ObjA _) = recordA"
| "ObjectType (ObjCNAME _) = recordCname"
| "ObjectType (ObjHost _) = recordHost"
| "ObjectType (ObjTXT _) = recordTxt"
| "ObjectType (ObjPTR _) = recordPtr"
| "ObjectType (ObjZoneAuth _) = ''zone_auth''"

definition NewEmptyRecordA :: RecordA where
  "NewEmptyRecordA =
     \<lparr>RecordA.Ref = '''', RecordA.Ipv4Addr = None, RecordA.Name = None, RecordA.Zone = ''''\<rparr>"

definition NewEmptyRecordCNAME :: RecordCNAME where
  "NewEmptyRecordCNAME =
     \<lparr>RecordCNAME.Ref = '''', RecordCNAME.Canonical = None, RecordCNAME.Name = None,
       RecordCNAME.Zone = ''''\<rparr>"

definition NewEmptyHostRecord :: HostRecord where
  "NewEmptyHostRecord =
     \<lparr>HostRecord.Ref = '''', HostRecord.Ipv4Addrs = [], HostRecord.Name = None,
       HostRecord.Zone = ''''\<rparr>"

definition NewEmptyRecordTXT :: RecordTXT where
  "NewEmptyRecordTXT =
     \<lparr>RecordTXT.Ref = '''', RecordTXT.Name = None, RecordTXT.Text = None,
       RecordTXT.Zone = ''''\<rparr>"

definition NewEmptyRecordPTR :: RecordPTR where
  "NewEmptyRecordPTR =
     \<lparr>RecordPTR.Ref = '''', RecordPTR.Ipv4Addr = None, RecordPTR.Name = None,
       RecordPTR.PtrdName = nil, RecordPTR.Zone = ''''\<rparr>"

text \<open>
  \<open>endpoint.NewEndpoint(dnsName, recordType, targets...)\<close> is kept as the call it is: an
  endpoint is the triple of its arguments.
\<close>

datatype Endpoint = NewEndpoint string string "string list"

definition RecordTypeA :: string where "RecordTypeA = ''A''"
definition RecordTypeCNAME :: string where "RecordTypeCNAME = ''CNAME''"
definition RecordTypeTXT :: string where "RecordTypeTXT = ''TXT''"
definition RecordTypePTR :: string where "RecordTypePTR = ''PTR''"

text \<open>
  The entry \<open>GetObject\<close> logs for each call. Its \<open>url\<close> comes from the request builder of
  the client library and is read by the tests' assertions only; it is left out, and the
  call of the request builder is taken to return, as it does in every test.
\<close>

record getObjectRequest =
  request_obj :: string
  request_ref :: string
  request_queryParams :: string
  verified :: bool

text \<open>
  The connector. Its zones and objects are slices held by pointer; every test allocates
  both before the first call, and the model takes them as allocated.
\<close>

record mockIBConnector =
  mockInfobloxZones :: "ZoneAuth list"
  mockInfobloxObjects :: "IBObject list"
  createdEndpoints :: "Endpoint list"
  deletedEndpoints :: "Endpoint list"
  updatedEndpoints :: "Endpoint list"
  getObjectRequests :: "getObjectRequest list"

text \<open>
  A call either returns or panics (a nil pointer is dereferenced, an index is out of
  range). Every operation gives the connector as the call leaves it together with that
  outcome: what was written before a panic stays written.
\<close>

datatype 'a outcome = Panic | Return 'a

section \<open>The mock connector: its operations\<close>

text \<open>Dereferencing a pointer: \<open>None\<close> is the nil pointer dereference, a panic.\<close>

fun deref :: "strptr \<Rightarrow> string option" where
  "deref nil = None"
| "deref (Ptr a s) = Some s"

text \<open>Go's \<open>==\<close> on two pointers compares the addresses.\<close>

fun samePointer :: "strptr \<Rightarrow> strptr \<Rightarrow> bool" where
  "samePointer nil nil = True"
| "samePointer (Ptr a s) (Ptr b t) = (a = b)"
| "samePointer _ _ = False"

subsection \<open>CreateObject\<close>

text \<open>
  \<open>dns.ReverseAddr\<close> belongs to the DNS library: it is the parameter \<open>ReverseAddr\<close>,
  which gives the reverse lookup name of an address, or \<open>None\<close> where the library
  returns its error (the string is not an IP address).
\<close>

text \<open>
  The loop over the addresses of a host record, in \<open>CreateObject\<close> and in
  \<open>UpdateObject\<close>; \<open>mk\<close> builds the endpoint from the name and the address, and
  \<open>endpoints\<close> is the list the loop appends to.
\<close>

fun rangeIpv4Addrs ::
  "(string \<Rightarrow> string \<Rightarrow> Endpoint) \<Rightarrow> string option \<Rightarrow> HostRecordIpv4Addr list \<Rightarrow>
     Endpoint list \<Rightarrow> Endpoint list \<times> unit outcome" where
  "rangeIpv4Addrs mk name [] endpoints = (endpoints, Return ())"
| "rangeIpv4Addrs mk name (i # addrs) endpoints =
     (case name of
        None \<Rightarrow> (endpoints, Panic)
      | Some n \<Rightarrow>
          (case HostRecordIpv4Addr.Ipv4Addr i of
             None \<Rightarrow> (endpoints, Panic)
           | Some ip \<Rightarrow> rangeIpv4Addrs mk name addrs (endpoints @ [mk n ip])))"

definition reference :: "string \<Rightarrow> string \<Rightarrow> string \<Rightarrow> string" where
  \<comment> \<open>\<open>fmt.Sprintf("%s/%s:%s/default", objectType, base64(name), discriminator)\<close>\<close>
  "reference objectType name discriminator =
     objectType @ ''/'' @ EncodeToString name @ '':'' @ discriminator @ ''/default''"

fun CreateObject ::
  "(string \<Rightarrow> string option) \<Rightarrow> mockIBConnector \<Rightarrow> IBObject \<Rightarrow>
     mockIBConnector \<times> (string \<times> error option) outcome" where
  "CreateObject ReverseAddr client (ObjA a) =
     (case RecordA.Name a of
        None \<Rightarrow> (client, Panic)
      | Some name \<Rightarrow>
          (case RecordA.Ipv4Addr a of
             None \<Rightarrow> (client, Panic)
           | Some ipv4Addr \<Rightarrow>
               (let client = client\<lparr>createdEndpoints :=
                      createdEndpoints client @ [NewEndpoint name RecordTypeA [ipv4Addr]]\<rparr>;
                    ref = reference (ObjectType (ObjA a)) name name;
                    a = a\<lparr>RecordA.Ref := ref\<rparr>
                in (client\<lparr>mockInfobloxObjects := mockInfobloxObjects client @ [ObjA a]\<rparr>,
                    Return (ref, None)))))"
| "CreateObject ReverseAddr client (ObjCNAME c) =
     (case RecordCNAME.Name c of
        None \<Rightarrow> (client, Panic)
      | Some name \<Rightarrow>
          (case RecordCNAME.Canonical c of
             None \<Rightarrow> (client, Panic)
           | Some canonical \<Rightarrow>
               (let client = client\<lparr>createdEndpoints :=
                      createdEndpoints client @ [NewEndpoint name RecordTypeCNAME [canonical]]\<rparr>;
                    ref = reference (ObjectType (ObjCNAME c)) name name;
                    c = c\<lparr>RecordCNAME.Ref := ref\<rparr>
                in (client\<lparr>mockInfobloxObjects := mockInfobloxObjects client @ [ObjCNAME c]\<rparr>,
                    Return (ref, None)))))"
| "CreateObject ReverseAddr client (ObjHost h) =
     (case rangeIpv4Addrs (\<lambda>n ip. NewEndpoint n RecordTypeA [ip]) (HostRecord.Name h)
             (HostRecord.Ipv4Addrs h) (createdEndpoints client) of
        (created, Panic) \<Rightarrow> (client\<lparr>createdEndpoints := created\<rparr>, Panic)
      | (created, Return _) \<Rightarrow>
          (let client = client\<lparr>createdEndpoints := created\<rparr>
           in case HostRecord.Name h of
                None \<Rightarrow> (client, Panic)
              | Some name \<Rightarrow>
                  (let ref = reference (ObjectType (ObjHost h)) name name;
                       h = h\<lparr>HostRecord.Ref := ref\<rparr>
                   in (client\<lparr>mockInfobloxObjects := mockInfobloxObjects client @ [ObjHost h]\<rparr>,
                       Return (ref, None)))))"
| "CreateObject ReverseAddr client (ObjTXT t) =
     (case RecordTXT.Name t of
        None \<Rightarrow> (client, Panic)
      | Some name \<Rightarrow>
          (case RecordTXT.Text t of
             None \<Rightarrow> (client, Panic)
           | Some txt \<Rightarrow>
               (let client = client\<lparr>createdEndpoints :=
                      createdEndpoints client @ [NewEndpoint name RecordTypeTXT [txt]]\<rparr>;
                    t = t\<lparr>RecordTXT.Ref := ''''\<rparr>;
                    ref = reference (ObjectType (ObjTXT t)) name name
                in (client\<lparr>mockInfobloxObjects := mockInfobloxObjects client @ [ObjTXT t]\<rparr>,
                    Return (ref, None)))))"
| "CreateObject ReverseAddr client (ObjPTR p) =
     (case deref (RecordPTR.PtrdName p) of
        None \<Rightarrow> (client, Panic)
      | Some ptrdName \<Rightarrow>
          (case RecordPTR.Ipv4Addr p of
             None \<Rightarrow> (client, Panic)
           | Some ipv4Addr \<Rightarrow>
               (let client = client\<lparr>createdEndpoints :=
                      createdEndpoints client @ [NewEndpoint ptrdName RecordTypePTR [ipv4Addr]]\<rparr>;
                    p = p\<lparr>RecordPTR.Ref := ''''\<rparr>
                in case ReverseAddr ipv4Addr of
                     None \<Rightarrow>
                       (client, Return ('''',
                          Some (Errorf (''unable to create reverse addr from '' @ ipv4Addr))))
                   | Some reverseAddr \<Rightarrow>
                       (let ref = reference (ObjectType (ObjPTR p)) ptrdName reverseAddr
                        in (client\<lparr>mockInfobloxObjects :=
                              mockInfobloxObjects client @ [ObjPTR p]\<rparr>,
                            Return (ref, None))))))"
| "CreateObject ReverseAddr client (ObjZoneAuth z) =
     (client\<lparr>mockInfobloxObjects := mockInfobloxObjects client @ [ObjZoneAuth z]\<rparr>,
      Return ('''', None))"

subsection \<open>GetObject\<close>

text \<open>
  \<open>AsString\<close> is a helper of the package that is declared outside this file: it is the
  parameter \<open>AsString\<close>, from a \<open>*string\<close> to a string. The query parameters are a
  pointer; \<open>queryParams\<close> is \<open>None\<close> for nil and otherwise the string \<open>fmt.Sprint\<close>
  prints for them, which is all the connector reads of them.
\<close>

datatype getResult =
    ResA "RecordA list"
  | ResCNAME "RecordCNAME list"
  | ResHost "HostRecord list"
  | ResTXT "RecordTXT list"
  | ResPTR "RecordPTR list"
  | ResZoneAuth "ZoneAuth list"

text \<open>
  The loop over the stored objects: \<open>body\<close> is the body of the loop for one object and
  the result so far, and gives the result after it, or panics.
\<close>

fun rangeObjects ::
  "(IBObject \<Rightarrow> 'r list \<Rightarrow> 'r list outcome) \<Rightarrow> IBObject list \<Rightarrow> 'r list \<Rightarrow> 'r list outcome"
  where
  "rangeObjects body [] result = Return result"
| "rangeObjects body (object # objects) result =
     (case body object result of
        Panic \<Rightarrow> Panic
      | Return result' \<Rightarrow> rangeObjects body objects result')"

text \<open>The bodies of the five loops. A \<open>continue\<close> leaves the result as it is.\<close>

fun bodyA ::
  "(string option \<Rightarrow> string) \<Rightarrow> RecordA \<Rightarrow> string \<Rightarrow> string \<Rightarrow> IBObject \<Rightarrow> RecordA list \<Rightarrow>
     RecordA list outcome" where
  "bodyA AsString obj ref queryParams (ObjA object) result =
     (let result = (if ref = RecordA.Ref object then result @ [object] else result)
      in if ref \<noteq> '''' \<and> ref \<noteq> RecordA.Ref object then Return result
         else if AsString (RecordA.Name obj) \<noteq> '''' \<and>
                 AsString (RecordA.Name obj) \<noteq> AsString (RecordA.Name object)
         then Return result
         else if \<not> Contains queryParams
                     (''ipv4addr:'' @ AsString (RecordA.Ipv4Addr object) @ '' name:'' @
                      AsString (RecordA.Name object)) \<and>
                 \<not> Contains queryParams (''zone:'' @ RecordA.Zone object)
         then Return result
         else Return (result @ [object]))"
| "bodyA AsString obj ref queryParams _ result = Return result"

fun bodyCNAME ::
  "(string option \<Rightarrow> string) \<Rightarrow> RecordCNAME \<Rightarrow> string \<Rightarrow> string \<Rightarrow> IBObject \<Rightarrow>
     RecordCNAME list \<Rightarrow> RecordCNAME list outcome" where
  "bodyCNAME AsString obj ref queryParams (ObjCNAME object) result =
     (let result = (if ref = RecordCNAME.Ref object then result @ [object] else result)
      in if ref \<noteq> '''' \<and> ref \<noteq> RecordCNAME.Ref object then Return result
         else if AsString (RecordCNAME.Name obj) \<noteq> '''' \<and>
                 AsString (RecordCNAME.Name obj) \<noteq> AsString (RecordCNAME.Name object)
         then Return result
         else if \<not> Contains queryParams (''name:'' @ AsString (RecordCNAME.Name object)) \<and>
                 \<not> Contains queryParams (''zone:'' @ RecordCNAME.Zone object)
         then Return result
         else Return (result @ [object]))"
| "bodyCNAME AsString obj ref queryParams _ result = Return result"

fun bodyHost ::
  "(string option \<Rightarrow> string) \<Rightarrow> HostRecord \<Rightarrow> string \<Rightarrow> string \<Rightarrow> IBObject \<Rightarrow>
     HostRecord list \<Rightarrow> HostRecord list outcome" where
  "bodyHost AsString obj ref queryParams (ObjHost object) result =
     (let result = (if ref = HostRecord.Ref object then result @ [object] else result)
      in if ref \<noteq> '''' \<and> ref \<noteq> HostRecord.Ref object then Return result
         else if AsString (HostRecord.Name obj) \<noteq> '''' \<and>
                 AsString (HostRecord.Name obj) \<noteq> AsString (HostRecord.Name object)
         then Return result
         else
           (case HostRecord.Ipv4Addrs object of
              [] \<Rightarrow> Panic
            | i # _ \<Rightarrow>
                if \<not> Contains queryParams
                       (''ipv4addrs:'' @ AsString (HostRecordIpv4Addr.Ipv4Addr i) @ '' name:'' @
                        AsString (HostRecord.Name object)) \<and>
                   \<not> Contains queryParams (''zone:'' @ HostRecord.Zone object)
                then Return result
                else Return (result @ [object])))"
| "bodyHost AsString obj ref queryParams _ result = Return result"

fun bodyTXT ::
  "(string option \<Rightarrow> string) \<Rightarrow> RecordTXT \<Rightarrow> string \<Rightarrow> string \<Rightarrow> IBObject \<Rightarrow>
     RecordTXT list \<Rightarrow> RecordTXT list outcome" where
  "bodyTXT AsString obj ref queryParams (ObjTXT object) result =
     (let result = (if ref = RecordTXT.Ref object then result @ [object] else result)
      in if ref \<noteq> '''' \<and> ref \<noteq> RecordTXT.Ref object then Return result
         else if AsString (RecordTXT.Name obj) \<noteq> '''' \<and>
                 AsString (RecordTXT.Name obj) \<noteq> AsString (RecordTXT.Name object)
         then Return result
         else if \<not> Contains queryParams
                     (''text:'' @ AsString (RecordTXT.Text object) @ '' name:'' @
                      AsString (RecordTXT.Name object)) \<and>
                 \<not> Contains queryParams (''zone:'' @ RecordTXT.Zone object)
         then Return result
         else Return (result @ [object]))"
| "bodyTXT AsString obj ref queryParams _ result = Return result"

fun bodyPTR ::
  "(string option \<Rightarrow> string) \<Rightarrow> RecordPTR \<Rightarrow> string \<Rightarrow> string \<Rightarrow> IBObject \<Rightarrow>
     RecordPTR list \<Rightarrow> RecordPTR list outcome" where
  "bodyPTR AsString obj ref queryParams (ObjPTR object) result =
     (let result = (if ref = RecordPTR.Ref object then result @ [object] else result)
      in if ref \<noteq> '''' \<and> ref \<noteq> RecordPTR.Ref object then Return result
         else
           (case deref (RecordPTR.PtrdName obj) of
              None \<Rightarrow> Panic
            | Some ptrdName \<Rightarrow>
                if ptrdName \<noteq> '''' \<and>
                   \<not> samePointer (RecordPTR.PtrdName obj) (RecordPTR.PtrdName object)
                then Return result
                else if \<not> Contains queryParams
                            (''ipv4addr:'' @ AsString (RecordPTR.Ipv4Addr object) @ '' name:'' @
                             AsString (RecordPTR.Name object)) \<and>
                        \<not> Contains queryParams (''zone:'' @ RecordPTR.Zone object)
                then Return result
                else Return (result @ [object])))"
| "bodyPTR AsString obj ref queryParams _ result = Return result"

fun mapOutcome :: "('a \<Rightarrow> 'b) \<Rightarrow> 'a outcome \<Rightarrow> 'b outcome" where
  "mapOutcome f Panic = Panic"
| "mapOutcome f (Return x) = Return (f x)"

text \<open>
  \<open>GetObject\<close> logs the request, then fills \<open>res\<close>: the outcome carries what it writes
  there. Its error result is always nil.
\<close>

definition GetObject ::
  "(string option \<Rightarrow> string) \<Rightarrow> mockIBConnector \<Rightarrow> IBObject \<Rightarrow> string \<Rightarrow> string option \<Rightarrow>
     mockIBConnector \<times> getResult outcome" where
  "GetObject AsString client obj ref queryParams =
     (let req = \<lparr>request_obj = ObjectType obj, request_ref = ref,
                 request_queryParams = (case queryParams of None \<Rightarrow> '''' | Some q \<Rightarrow> q),
                 verified = False\<rparr>;
          client = client\<lparr>getObjectRequests := getObjectRequests client @ [req]\<rparr>;
          objects = mockInfobloxObjects client
      in (client,
          case obj of
            ObjA t \<Rightarrow>
              mapOutcome ResA
                (rangeObjects (bodyA AsString t ref (request_queryParams req)) objects [])
          | ObjCNAME t \<Rightarrow>
              mapOutcome ResCNAME
                (rangeObjects (bodyCNAME AsString t ref (request_queryParams req)) objects [])
          | ObjHost t \<Rightarrow>
              mapOutcome ResHost
                (rangeObjects (bodyHost AsString t ref (request_queryParams req)) objects [])
          | ObjTXT t \<Rightarrow>
              mapOutcome ResTXT
                (rangeObjects (bodyTXT AsString t ref (request_queryParams req)) objects [])
          | ObjPTR t \<Rightarrow>
              mapOutcome ResPTR
                (rangeObjects (bodyPTR AsString t ref (request_queryParams req)) objects [])
          | ObjZoneAuth t \<Rightarrow> Return (ResZoneAuth (mockInfobloxZones client))))"

subsection \<open>DeleteObject\<close>

text \<open>
  The loop over the records \<open>GetObject\<close> found: \<open>nameOf\<close> reads the pointer the loop
  dereferences for the name of the endpoint.
\<close>

fun rangeRecords ::
  "('r \<Rightarrow> string option) \<Rightarrow> string \<Rightarrow> 'r list \<Rightarrow> Endpoint list \<Rightarrow> Endpoint list \<times> unit outcome"
  where
  "rangeRecords nameOf recordType [] endpoints = (endpoints, Return ())"
| "rangeRecords nameOf recordType (r # records) endpoints =
     (case nameOf r of
        None \<Rightarrow> (endpoints, Panic)
      | Some name \<Rightarrow>
          rangeRecords nameOf recordType records
            (endpoints @ [NewEndpoint name recordType ['''']]))"

text \<open>What follows the call of \<open>GetObject\<close> in each case of \<open>DeleteObject\<close>.\<close>

definition deleteRecords ::
  "('r \<Rightarrow> string option) \<Rightarrow> string \<Rightarrow> mockIBConnector \<Rightarrow> 'r list \<Rightarrow>
     mockIBConnector \<times> (string \<times> error option) outcome" where
  "deleteRecords nameOf recordType client records =
     (case rangeRecords nameOf recordType records (deletedEndpoints client) of
        (deleted, Panic) \<Rightarrow> (client\<lparr>deletedEndpoints := deleted\<rparr>, Panic)
      | (deleted, Return _) \<Rightarrow> (client\<lparr>deletedEndpoints := deleted\<rparr>, Return ('''', None)))"

text \<open>
  \<open>result[1]\<close> and \<open>result[2]\<close> are read with Go's bounds check: an index that is out
  of range panics.
\<close>

definition DeleteObject ::
  "(string option \<Rightarrow> string) \<Rightarrow> mockIBConnector \<Rightarrow> string \<Rightarrow>
     mockIBConnector \<times> (string \<times> error option) outcome" where
  "DeleteObject AsString client ref =
     (let result = FindStringSubmatch ref
      in if \<not> 1 < length result then (client, Panic)
         else if result ! 1 = ''record:a'' then
           (if \<not> 2 < length result then (client, Panic)
            else
              case GetObject AsString client
                     (ObjA (NewEmptyRecordA\<lparr>RecordA.Name := Some (result ! 2)\<rparr>)) ref None of
                (client, Return (ResA records)) \<Rightarrow>
                  deleteRecords RecordA.Name RecordTypeA client records
              | (client, _) \<Rightarrow> (client, Panic))
         else if result ! 1 = ''record:cname'' then
           (if \<not> 2 < length result then (client, Panic)
            else
              case GetObject AsString client
                     (ObjCNAME (NewEmptyRecordCNAME\<lparr>RecordCNAME.Name := Some (result ! 2)\<rparr>))
                     ref None of
                (client, Return (ResCNAME records)) \<Rightarrow>
                  deleteRecords RecordCNAME.Name RecordTypeCNAME client records
              | (client, _) \<Rightarrow> (client, Panic))
         else if result ! 1 = ''record:host'' then
           (if \<not> 2 < length result then (client, Panic)
            else
              case GetObject AsString client
                     (ObjHost (NewEmptyHostRecord\<lparr>HostRecord.Name := Some (result ! 2)\<rparr>))
                     ref None of
                (client, Return (ResHost records)) \<Rightarrow>
                  deleteRecords HostRecord.Name RecordTypeA client records
              | (client, _) \<Rightarrow> (client, Panic))
         else if result ! 1 = ''record:txt'' then
           (if \<not> 2 < length result then (client, Panic)
            else
              case GetObject AsString client
                     (ObjTXT (NewEmptyRecordTXT\<lparr>RecordTXT.Name := Some (result ! 2)\<rparr>))
                     ref None of
                (client, Return (ResTXT records)) \<Rightarrow>
                  deleteRecords RecordTXT.Name RecordTypeTXT client records
              | (client, _) \<Rightarrow> (client, Panic))
         else if result ! 1 = ''record:ptr'' then
           (if \<not> 2 < length result then (client, Panic)
            else
              case GetObject AsString client
                     (ObjPTR (NewEmptyRecordPTR\<lparr>RecordPTR.Name := Some (result ! 2)\<rparr>))
                     ref None of
                (client, Return (ResPTR records)) \<Rightarrow>
                  deleteRecords (\<lambda>r. deref (RecordPTR.PtrdName r)) RecordTypePTR client records
              | (client, _) \<Rightarrow> (client, Panic))
         else (client, Return ('''', None)))"

subsection \<open>UpdateObject\<close>

fun UpdateObject ::
  "mockIBConnector \<Rightarrow> IBObject \<Rightarrow> string \<Rightarrow> mockIBConnector \<times> (string \<times> error option) outcome"
  where
  "UpdateObject client (ObjA a) ref =
     (case RecordA.Name a of
        None \<Rightarrow> (client, Panic)
      | Some name \<Rightarrow>
          (case RecordA.Ipv4Addr a of
             None \<Rightarrow> (client, Panic)
           | Some ipv4Addr \<Rightarrow>
               (client\<lparr>updatedEndpoints :=
                  updatedEndpoints client @ [NewEndpoint name ipv4Addr [RecordTypeA]]\<rparr>,
                Return ('''', None))))"
| "UpdateObject client (ObjCNAME c) ref =
     (case RecordCNAME.Name c of
        None \<Rightarrow> (client, Panic)
      | Some name \<Rightarrow>
          (case RecordCNAME.Canonical c of
             None \<Rightarrow> (client, Panic)
           | Some canonical \<Rightarrow>
               (client\<lparr>updatedEndpoints :=
                  updatedEndpoints client @ [NewEndpoint name canonical [RecordTypeCNAME]]\<rparr>,
                Return ('''', None))))"
| "UpdateObject client (ObjHost h) ref =
     (case rangeIpv4Addrs (\<lambda>n ip. NewEndpoint n ip [RecordTypeA]) (HostRecord.Name h)
             (HostRecord.Ipv4Addrs h) (updatedEndpoints client) of
        (updated, Panic) \<Rightarrow> (client\<lparr>updatedEndpoints := updated\<rparr>, Panic)
      | (updated, Return _) \<Rightarrow> (client\<lparr>updatedEndpoints := updated\<rparr>, Return ('''', None)))"
| "UpdateObject client (ObjTXT t) ref =
     (case RecordTXT.Name t of
        None \<Rightarrow> (client, Panic)
      | Some name \<Rightarrow>
          (case RecordTXT.Text t of
             None \<Rightarrow> (client, Panic)
           | Some txt \<Rightarrow>
               (client\<lparr>updatedEndpoints :=
                  updatedEndpoints client @ [NewEndpoint name txt [RecordTypeTXT]]\<rparr>,
                Return ('''', None))))"
| "UpdateObject client (ObjPTR p) ref = (client, Return ('''', None))"
| "UpdateObject client (ObjZoneAuth z) ref = (client, Return ('''', None))"

subsection \<open>Sequences of calls\<close>

datatype call =
    Create IBObject
  | Get IBObject string "string option"
  | Update IBObject string
  | Delete string

text \<open>One call: the connector after it, and whether the call returned.\<close>

fun returned :: "'a outcome \<Rightarrow> bool" where
  "returned Panic = False"
| "returned (Return _) = True"

fun doCall ::
  "(string option \<Rightarrow> string) \<Rightarrow> (string \<Rightarrow> string option) \<Rightarrow> mockIBConnector \<Rightarrow> call \<Rightarrow>
     mockIBConnector \<times> bool" where
  "doCall AsString ReverseAddr client (Create obj) =
     (case CreateObject ReverseAddr client obj of (client', out) \<Rightarrow> (client', returned out))"
| "doCall AsString ReverseAddr client (Get obj ref queryParams) =
     (case GetObject AsString client obj ref queryParams of
        (client', out) \<Rightarrow> (client', returned out))"
| "doCall AsString ReverseAddr client (Update obj ref) =
     (case UpdateObject client obj ref of (client', out) \<Rightarrow> (client', returned out))"
| "doCall AsString ReverseAddr client (Delete ref) =
     (case DeleteObject AsString client ref of (client', out) \<Rightarrow> (client', returned out))"

text \<open>A sequence of calls runs until it ends or a call panics.\<close>

fun doCalls ::
  "(string option \<Rightarrow> string) \<Rightarrow> (string \<Rightarrow> string option) \<Rightarrow> mockIBConnector \<Rightarrow> call list \<Rightarrow>
     mockIBConnector" where
  "doCalls AsString ReverseAddr client [] = client"
| "doCalls AsString ReverseAddr client (c # cs) =
     (case doCall AsString ReverseAddr client c of
        (client', True) \<Rightarrow> doCalls AsString ReverseAddr client' cs
      | (client', False) \<Rightarrow> client')"

section \<open>Zone selection\<close>

text \<open>
  Modelled from the spec: \<open>findZone\<close> is a method of the provider, which is not among the
  source files (only its test \<open>TestInfobloxZones\<close> is). The spec (4.1, Zone Resolver):
  among the zones whose \<open>Fqdn\<close> is a suffix of \<open>name\<close>, dot-boundary aware
  (\<open>name == Fqdn\<close>, or \<open>name\<close> ends with \<open>"." + Fqdn\<close>), pick the one with the longest
  \<open>Fqdn\<close>; no match gives nil; of two matches of equal length the first in input order
  wins.
\<close>

definition zoneMatches :: "string \<Rightarrow> ZoneAuth \<Rightarrow> bool" where
  "zoneMatches name zone = (name = Fqdn zone \<or> suffix (''.'' @ Fqdn zone) name)"

fun rangeZones :: "ZoneAuth list \<Rightarrow> string \<Rightarrow> ZoneAuth option \<Rightarrow> ZoneAuth option" where
  "rangeZones [] name result = result"
| "rangeZones (zone # zones) name result =
     (if zoneMatches name zone \<and>
         (case result of None \<Rightarrow> True | Some r \<Rightarrow> length (Fqdn r) < length (Fqdn zone))
      then rangeZones zones name (Some zone)
      else rangeZones zones name result)"

definition FindZone :: "ZoneAuth list \<Rightarrow> string \<Rightarrow> ZoneAuth option" where
  "FindZone zones name = rangeZones zones name None"

definition createMockInfobloxZone :: "string \<Rightarrow> ZoneAuth" where
  "createMockInfobloxZone fqdn = \<lparr>Fqdn = fqdn\<rparr>"

section \<open>Notions the properties are stated with\<close>

text \<open>A call returns an error: it returns, and its error result is not nil.\<close>

fun returnsError :: "('a \<times> error option) outcome \<Rightarrow> bool" where
  "returnsError (Return (_, Some _)) = True"
| "returnsError _ = False"

text \<open>The list a loop of \<open>GetObject\<close> has built, empty where it panicked.\<close>

fun theResult :: "'a list outcome \<Rightarrow> 'a list" where
  "theResult Panic = []"
| "theResult (Return r) = r"

text \<open>The string \<open>GetObject\<close> logs and searches for the query parameters.\<close>

definition queryString :: "string option \<Rightarrow> string" where
  "queryString queryParams = (case queryParams of None \<Rightarrow> [] | Some q \<Rightarrow> q)"


text \<open>
  What \<open>DeleteObject\<close> returns after its loop over the records found: the loop panics
  where a record has no name to dereference.
\<close>

definition deleted :: "('r \<Rightarrow> string option) \<Rightarrow> 'r list \<Rightarrow> (string \<times> error option) outcome" where
  "deleted nameOf records =
     (if \<forall>r \<in> set records. nameOf r \<noteq> None then Return ([], None) else Panic)"

text \<open>
  From \<open>client\<close> to \<open>client'\<close> nothing changed but the two logs \<open>DeleteObject\<close> writes
  to, and these were only appended to.
\<close>

definition onlyLogs :: "mockIBConnector \<Rightarrow> mockIBConnector \<Rightarrow> bool" where
  "onlyLogs client client' =
     (mockInfobloxZones client' = mockInfobloxZones client \<and>
      mockInfobloxObjects client' = mockInfobloxObjects client \<and>
      createdEndpoints client' = createdEndpoints client \<and>
      updatedEndpoints client' = updatedEndpoints client \<and>
      prefix (deletedEndpoints client) (deletedEndpoints client') \<and>
      prefix (getObjectRequests client) (getObjectRequests client'))"

subsection \<open>Values for the examples\<close>

text \<open>
  An instance of \<open>AsString\<close>: the string pointed to, and the empty string for nil. An
  instance of \<open>ReverseAddr\<close> that knows the address of the tests' host record.
\<close>

definition derefOrEmpty :: "string option \<Rightarrow> string" where
  "derefOrEmpty s = (case s of None \<Rightarrow> [] | Some v \<Rightarrow> v)"

definition reverseAddrOfHost :: "string \<Rightarrow> string option" where
  "reverseAddrOfHost addr =
     (if addr = ''125.1.1.1'' then Some ''1.1.1.125.in-addr.arpa.'' else None)"

text \<open>The connector of \<open>TestInfobloxRecords\<close> before any object is stored.\<close>

definition emptyClient :: mockIBConnector where
  "emptyClient =
     \<lparr>mockInfobloxZones = [createMockInfobloxZone ''example.com'',
                            createMockInfobloxZone ''other.com''],
      mockInfobloxObjects = [], createdEndpoints = [], deletedEndpoints = [],
      updatedEndpoints = [], getObjectRequests = []\<rparr>"

text \<open>
  The A record of \<open>testInfobloxApplyChangesInternal\<close> that is to be deleted, as
  \<open>createMockInfobloxObjectWithZone\<close> builds it, and a connector that stores it.
\<close>

definition deletedA :: RecordA where
  "deletedA =
     \<lparr>RecordA.Ref = ''record:a/ZGVsZXRlZC5leGFtcGxlLmNvbQ==:deleted.example.com/default'',
      RecordA.Ipv4Addr = Some ''121.212.121.212'',
      RecordA.Name = Some ''deleted.example.com'', RecordA.Zone = ''example.com''\<rparr>"

definition storedClient :: mockIBConnector where
  "storedClient = emptyClient\<lparr>mockInfobloxObjects := [ObjA deletedA]\<rparr>"



text \<open>Records of the zone \<open>example.com\<close>, to be created.\<close>

definition newA :: RecordA where
  "newA =
     \<lparr>RecordA.Ref = [], RecordA.Ipv4Addr = Some ''1.2.3.4'',
      RecordA.Name = Some ''example.com'', RecordA.Zone = ''example.com''\<rparr>"

definition newTXT :: RecordTXT where
  "newTXT =
     \<lparr>RecordTXT.Ref = [], RecordTXT.Name = Some ''example.com'', RecordTXT.Text = Some ''tag'',
      RecordTXT.Zone = ''example.com''\<rparr>"

definition newCNAME :: RecordCNAME where
  "newCNAME =
     \<lparr>RecordCNAME.Ref = [], RecordCNAME.Canonical = Some ''target.example.com'',
      RecordCNAME.Name = Some ''example.com'', RecordCNAME.Zone = ''example.com''\<rparr>"

definition newHost :: HostRecord where
  "newHost =
     \<lparr>HostRecord.Ref = [],
      HostRecord.Ipv4Addrs = [\<lparr>HostRecordIpv4Addr.Ipv4Addr = Some ''125.1.1.1''\<rparr>],
      HostRecord.Name = Some ''host.example.com'', HostRecord.Zone = ''example.com''\<rparr>"

definition newPTR :: RecordPTR where
  "newPTR =
     \<lparr>RecordPTR.Ref = [], RecordPTR.Ipv4Addr = Some ''125.1.1.1'', RecordPTR.Name = None,
      RecordPTR.PtrdName = Ptr 0 ''host.example.com'', RecordPTR.Zone = []\<rparr>"

text \<open>
  The PTR record of \<open>TestInfobloxRecordsReverse\<close>, as \<open>createMockInfobloxObject\<close> builds
  it; the address of its \<open>PtrdName\<close> is that of the parameter \<open>name\<close>, here 0.
\<close>

definition reversePTR :: RecordPTR where
  "reversePTR =
     \<lparr>RecordPTR.Ref = ''record:ptr/ZXhhbXBsZS5jb20=:example.com/default'',
      RecordPTR.Ipv4Addr = Some ''10.0.0.1'', RecordPTR.Name = None,
      RecordPTR.PtrdName = Ptr 0 ''example.com'', RecordPTR.Zone = []\<rparr>"

section \<open>Properties of the media type check\<close>

lemma Split_supportedMediaVersions: "Split supportedMediaVersions '','' = [''1'']"
  by (simp add: Split_def supportedMediaVersions_def)

lemma mediaTypeVersion_1:
  "mediaTypeVersion ''1'' = ''application/external.dns.webhook+json;version=1''"
  by (simp add: mediaTypeVersion_def mediaTypeFormat_def)

lemma firstSupported_versions:
  "firstSupported (Split supportedMediaVersions '','') value =
     (if value = ''application/external.dns.webhook+json;version=1'' then Some ''1'' else None)"
  by (auto simp: Split_supportedMediaVersions mediaTypeVersion_1 Is_def)

lemma supportedMediaTypes_versions:
  "supportedMediaTypes 0 (Split supportedMediaVersions '','') '''' =
     ''application/external.dns.webhook+json;version=1''"
  unfolding Split_supportedMediaVersions
  by (simp add: mediaTypeVersion_1 supportedMediaVersions_def)

text \<open>
  Claim C10. \<open>checkAndGetMediaTypeHeaderValue\<close> returns \<open>("1", nil)\<close> exactly when the
  header value is the string \<open>application/external.dns.webhook+json;version=1\<close>; for every
  other value it returns the empty version and an error whose message starts with
  \<open>Unsupported media type version\<close>.
\<close>

theorem checkAndGetMediaTypeHeaderValue_spec:
  "(checkAndGetMediaTypeHeaderValue value = (''1'', None)) =
     (value = ''application/external.dns.webhook+json;version=1'')
   \<and> checkAndGetMediaTypeHeaderValue value =
     (if value = ''application/external.dns.webhook+json;version=1'' then (''1'', None)
      else ('''', Some (Errorf (''Unsupported media type version: '' @ [CHR 0x27] @ value @
             [CHR 0x27] @ ''. Supported media types are: '' @ [CHR 0x27] @
             ''application/external.dns.webhook+json;version=1'' @ [CHR 0x27]))))"
  unfolding checkAndGetMediaTypeHeaderValue_def firstSupported_versions
    supportedMediaTypes_versions
  by simp

section \<open>Zone selection: lemmas\<close>

lemma rangeZones_None:
  "(rangeZones zones name result = None) =
     (result = None \<and> (\<forall>z \<in> set zones. \<not> zoneMatches name z))"
  by (induction zones arbitrary: result) (auto split: option.splits)

lemma rangeZones_Some:
  "rangeZones zones name result = Some z \<Longrightarrow>
   (result = Some z \<or> (z \<in> set zones \<and> zoneMatches name z)) \<and>
   (\<forall>r. result = Some r \<longrightarrow> length (Fqdn r) \<le> length (Fqdn z)) \<and>
   (\<forall>z' \<in> set zones. zoneMatches name z' \<longrightarrow> length (Fqdn z') \<le> length (Fqdn z))"
proof (induction zones arbitrary: result)
  case Nil
  then show ?case by simp
next
  case (Cons zone zones)
  show ?case
  proof (cases "zoneMatches name zone \<and>
         (case result of None \<Rightarrow> True | Some r \<Rightarrow> length (Fqdn r) < length (Fqdn zone))")
    case True
    with Cons.prems have "rangeZones zones name (Some zone) = Some z" by simp
    from Cons.IH[OF this] True show ?thesis by (auto split: option.splits)
  next
    case False
    with Cons.prems have "rangeZones zones name result = Some z" by simp
    from Cons.IH[OF this] False show ?thesis by (auto split: option.splits)
  qed
qed

section \<open>The connector: lemmas\<close>

subsection \<open>The loops over addresses and records\<close>

lemma rangeIpv4Addrs_Return:
  "\<forall>i \<in> set addrs. HostRecordIpv4Addr.Ipv4Addr i \<noteq> None \<Longrightarrow>
   rangeIpv4Addrs mk (Some n) addrs endpoints =
     (endpoints @ map (\<lambda>i. mk n (the (HostRecordIpv4Addr.Ipv4Addr i))) addrs, Return ())"
  by (induction addrs arbitrary: endpoints) auto

lemma rangeIpv4Addrs_prefix:
  "prefix endpoints (fst (rangeIpv4Addrs mk name addrs endpoints))"
proof (induction addrs arbitrary: endpoints)
  case Nil
  then show ?case by simp
next
  case (Cons i addrs)
  show ?case
    using Cons.IH append_prefixD by (fastforce split: option.splits)
qed

lemma rangeRecords_prefix:
  "prefix endpoints (fst (rangeRecords nameOf recordType records endpoints))"
proof (induction records arbitrary: endpoints)
  case Nil
  then show ?case by simp
next
  case (Cons r records)
  show ?case
    using Cons.IH append_prefixD by (fastforce split: option.splits)
qed





subsection \<open>CreateObject and UpdateObject\<close>

lemma CreateObject_other_no_error:
  "(\<forall>p. obj \<noteq> ObjPTR p) \<Longrightarrow> \<not> returnsError (snd (CreateObject ReverseAddr client obj))"
  by (cases obj) (auto simp: Let_def split: option.splits prod.splits outcome.splits)

lemma CreateObject_zones:
  "mockInfobloxZones (fst (CreateObject ReverseAddr client obj)) = mockInfobloxZones client"
  by (cases obj) (auto simp: Let_def split: option.splits prod.splits outcome.splits)

lemma rangeIpv4Addrs_Panic:
  "\<exists>i \<in> set addrs. HostRecordIpv4Addr.Ipv4Addr i = None \<Longrightarrow>
   snd (rangeIpv4Addrs mk name addrs endpoints) = Panic"
  by (induction addrs arbitrary: endpoints) (auto split: option.splits)

lemma CreateObject_Host_Panic:
  assumes "HostRecord.Name h = None \<or>
           (\<exists>i \<in> set (HostRecord.Ipv4Addrs h). HostRecordIpv4Addr.Ipv4Addr i = None)"
  shows "snd (CreateObject ReverseAddr client (ObjHost h)) = Panic"
proof (cases "\<exists>i \<in> set (HostRecord.Ipv4Addrs h). HostRecordIpv4Addr.Ipv4Addr i = None")
  case True
  obtain created out where r:
    "rangeIpv4Addrs (\<lambda>n ip. NewEndpoint n RecordTypeA [ip]) (HostRecord.Name h)
       (HostRecord.Ipv4Addrs h) (createdEndpoints client) = (created, out)"
    by (cases "rangeIpv4Addrs (\<lambda>n ip. NewEndpoint n RecordTypeA [ip]) (HostRecord.Name h)
       (HostRecord.Ipv4Addrs h) (createdEndpoints client)")
  with rangeIpv4Addrs_Panic[OF True, of "\<lambda>n ip. NewEndpoint n RecordTypeA [ip]"
      "HostRecord.Name h" "createdEndpoints client"]
  have "out = Panic" by simp
  with r show ?thesis by simp
next
  case False
  with assms have "HostRecord.Name h = None" by simp
  then show ?thesis by (simp add: Let_def split: prod.splits outcome.splits)
qed

lemma UpdateObject_fields:
  "mockInfobloxZones (fst (UpdateObject client obj ref)) = mockInfobloxZones client"
  "mockInfobloxObjects (fst (UpdateObject client obj ref)) = mockInfobloxObjects client"
  "createdEndpoints (fst (UpdateObject client obj ref)) = createdEndpoints client"
  "deletedEndpoints (fst (UpdateObject client obj ref)) = deletedEndpoints client"
  "getObjectRequests (fst (UpdateObject client obj ref)) = getObjectRequests client"
  by (cases obj; auto split: option.splits prod.splits outcome.splits)+

lemma UpdateObject_prefix:
  "prefix (updatedEndpoints client) (updatedEndpoints (fst (UpdateObject client obj ref)))"
proof (cases obj)
  case (ObjHost h)
  have "prefix (updatedEndpoints client)
          (fst (rangeIpv4Addrs (\<lambda>n ip. NewEndpoint n ip [RecordTypeA]) (HostRecord.Name h)
                 (HostRecord.Ipv4Addrs h) (updatedEndpoints client)))"
    by (rule rangeIpv4Addrs_prefix)
  then show ?thesis using ObjHost
    by (auto split: prod.splits outcome.splits)
qed (auto split: option.splits)

subsection \<open>GetObject\<close>

lemma GetObject_fst:
  "fst (GetObject AsString client obj ref queryParams) =
     client\<lparr>getObjectRequests := getObjectRequests client @
       [\<lparr>request_obj = ObjectType obj, request_ref = ref,
         request_queryParams = queryString queryParams, verified = False\<rparr>]\<rparr>"
  by (simp add: GetObject_def Let_def queryString_def)

lemma GetObject_snd:
  "snd (GetObject AsString client (ObjA ta) ref queryParams) =
     mapOutcome ResA (rangeObjects (bodyA AsString ta ref (queryString queryParams))
       (mockInfobloxObjects client) [])"
  "snd (GetObject AsString client (ObjCNAME tc) ref queryParams) =
     mapOutcome ResCNAME (rangeObjects (bodyCNAME AsString tc ref (queryString queryParams))
       (mockInfobloxObjects client) [])"
  "snd (GetObject AsString client (ObjHost th) ref queryParams) =
     mapOutcome ResHost (rangeObjects (bodyHost AsString th ref (queryString queryParams))
       (mockInfobloxObjects client) [])"
  "snd (GetObject AsString client (ObjTXT tt) ref queryParams) =
     mapOutcome ResTXT (rangeObjects (bodyTXT AsString tt ref (queryString queryParams))
       (mockInfobloxObjects client) [])"
  "snd (GetObject AsString client (ObjPTR tp) ref queryParams) =
     mapOutcome ResPTR (rangeObjects (bodyPTR AsString tp ref (queryString queryParams))
       (mockInfobloxObjects client) [])"
  "snd (GetObject AsString client (ObjZoneAuth tz) ref queryParams) =
     Return (ResZoneAuth (mockInfobloxZones client))"
  by (simp_all add: GetObject_def Let_def queryString_def)

lemma GetObject_snd_cong:
  "mockInfobloxObjects client' = mockInfobloxObjects client \<Longrightarrow>
   mockInfobloxZones client' = mockInfobloxZones client \<Longrightarrow>
   snd (GetObject AsString client' obj ref queryParams) =
   snd (GetObject AsString client obj ref queryParams)"
  by (cases obj) (simp_all add: GetObject_snd)

text \<open>
  Each body only appends to the result it is given, so a loop that does not panic returns
  what the bodies append, object after object.
\<close>

lemma rangeObjects_concat:
  assumes "\<And>x r. body x r = mapOutcome ((@) r) (body x [])"
    and "\<forall>x \<in> set objs. body x [] \<noteq> Panic"
  shows "rangeObjects body objs acc =
           Return (acc @ concat (map (\<lambda>x. theResult (body x [])) objs))"
  using assms(2)
proof (induction objs arbitrary: acc)
  case Nil
  then show ?case by simp
next
  case (Cons x objs)
  from Cons.prems obtain r where r: "body x [] = Return r"
    by (cases "body x []") auto
  have "body x acc = Return (acc @ r)"
    using assms(1)[of x acc] r by simp
  then show ?case using Cons r by simp
qed

lemma bodyA_append:
  "bodyA AsString t ref q x r = mapOutcome ((@) r) (bodyA AsString t ref q x [])"
  by (cases x) (simp_all add: Let_def)

lemma bodyCNAME_append:
  "bodyCNAME AsString t ref q x r = mapOutcome ((@) r) (bodyCNAME AsString t ref q x [])"
  by (cases x) (simp_all add: Let_def)

lemma bodyTXT_append:
  "bodyTXT AsString t ref q x r = mapOutcome ((@) r) (bodyTXT AsString t ref q x [])"
  by (cases x) (simp_all add: Let_def)

lemma bodyHost_append:
  "bodyHost AsString t ref q x r = mapOutcome ((@) r) (bodyHost AsString t ref q x [])"
  by (cases x) (simp_all add: Let_def split: list.splits)

lemma bodyPTR_append:
  "bodyPTR AsString t ref q x r = mapOutcome ((@) r) (bodyPTR AsString t ref q x [])"
  by (cases x) (simp_all add: Let_def split: option.splits)

lemma bodyA_no_panic: "bodyA AsString t ref q x [] \<noteq> Panic"
  by (cases x) (simp_all add: Let_def)

lemma bodyCNAME_no_panic: "bodyCNAME AsString t ref q x [] \<noteq> Panic"
  by (cases x) (simp_all add: Let_def)

lemma bodyTXT_no_panic: "bodyTXT AsString t ref q x [] \<noteq> Panic"
  by (cases x) (simp_all add: Let_def)

lemma bodyHost_no_panic:
  "(\<forall>h. x = ObjHost h \<longrightarrow> HostRecord.Ipv4Addrs h \<noteq> []) \<Longrightarrow>
   bodyHost AsString t ref q x [] \<noteq> Panic"
  by (cases x) (auto simp: Let_def split: list.splits)

lemma bodyPTR_no_panic:
  "deref (RecordPTR.PtrdName t) \<noteq> None \<Longrightarrow> bodyPTR AsString t ref q x [] \<noteq> Panic"
  by (cases x) (auto simp: Let_def split: if_splits)

lemma rangeObjects_bodyA:
  "rangeObjects (bodyA AsString t ref q) objs [] =
     Return (concat (map (\<lambda>x. theResult (bodyA AsString t ref q x [])) objs))"
proof -
  have "\<forall>x \<in> set objs. bodyA AsString t ref q x [] \<noteq> Panic"
    by (simp add: bodyA_no_panic)
  from rangeObjects_concat[of "bodyA AsString t ref q" objs "[]", OF bodyA_append this]
  show ?thesis by simp
qed

lemma rangeObjects_bodyCNAME:
  "rangeObjects (bodyCNAME AsString t ref q) objs [] =
     Return (concat (map (\<lambda>x. theResult (bodyCNAME AsString t ref q x [])) objs))"
proof -
  have "\<forall>x \<in> set objs. bodyCNAME AsString t ref q x [] \<noteq> Panic"
    by (simp add: bodyCNAME_no_panic)
  from rangeObjects_concat[of "bodyCNAME AsString t ref q" objs "[]", OF bodyCNAME_append this]
  show ?thesis by simp
qed

lemma rangeObjects_bodyTXT:
  "rangeObjects (bodyTXT AsString t ref q) objs [] =
     Return (concat (map (\<lambda>x. theResult (bodyTXT AsString t ref q x [])) objs))"
proof -
  have "\<forall>x \<in> set objs. bodyTXT AsString t ref q x [] \<noteq> Panic"
    by (simp add: bodyTXT_no_panic)
  from rangeObjects_concat[of "bodyTXT AsString t ref q" objs "[]", OF bodyTXT_append this]
  show ?thesis by simp
qed

lemma rangeObjects_bodyHost:
  "\<forall>h. ObjHost h \<in> set objs \<longrightarrow> HostRecord.Ipv4Addrs h \<noteq> [] \<Longrightarrow>
   rangeObjects (bodyHost AsString t ref q) objs [] =
     Return (concat (map (\<lambda>x. theResult (bodyHost AsString t ref q x [])) objs))"
proof -
  assume "\<forall>h. ObjHost h \<in> set objs \<longrightarrow> HostRecord.Ipv4Addrs h \<noteq> []"
  then have "\<forall>x \<in> set objs. bodyHost AsString t ref q x [] \<noteq> Panic"
    by (auto intro!: bodyHost_no_panic)
  from rangeObjects_concat[of "bodyHost AsString t ref q" objs "[]", OF bodyHost_append this]
  show ?thesis by simp
qed

lemma rangeObjects_bodyPTR:
  "deref (RecordPTR.PtrdName t) \<noteq> None \<Longrightarrow>
   rangeObjects (bodyPTR AsString t ref q) objs [] =
     Return (concat (map (\<lambda>x. theResult (bodyPTR AsString t ref q x [])) objs))"
proof -
  assume "deref (RecordPTR.PtrdName t) \<noteq> None"
  then have "\<forall>x \<in> set objs. bodyPTR AsString t ref q x [] \<noteq> Panic"
    by (simp add: bodyPTR_no_panic)
  from rangeObjects_concat[of "bodyPTR AsString t ref q" objs "[]", OF bodyPTR_append this]
  show ?thesis by simp
qed

text \<open>With an empty reference and an empty name in the template: which objects are found.\<close>

lemma in_found_A:
  "AsString (RecordA.Name t) = [] \<Longrightarrow>
   (a \<in> set (concat (map (\<lambda>x. theResult (bodyA AsString t [] q x [])) objs))) =
   (ObjA a \<in> set objs \<and>
      (RecordA.Ref a = [] \<or>
       Contains q (''ipv4addr:'' @ AsString (RecordA.Ipv4Addr a) @ '' name:'' @
                   AsString (RecordA.Name a)) \<or>
       Contains q (''zone:'' @ RecordA.Zone a)))"
proof (induction objs)
  case Nil
  then show ?case by simp
next
  case (Cons x objs)
  then show ?case by (cases x) (auto simp: Let_def)
qed

lemma in_found_CNAME:
  "AsString (RecordCNAME.Name t) = [] \<Longrightarrow>
   (a \<in> set (concat (map (\<lambda>x. theResult (bodyCNAME AsString t [] q x [])) objs))) =
   (ObjCNAME a \<in> set objs \<and>
      (RecordCNAME.Ref a = [] \<or>
       Contains q (''name:'' @ AsString (RecordCNAME.Name a)) \<or>
       Contains q (''zone:'' @ RecordCNAME.Zone a)))"
proof (induction objs)
  case Nil
  then show ?case by simp
next
  case (Cons x objs)
  then show ?case by (cases x) (auto simp: Let_def)
qed

lemma in_found_TXT:
  "AsString (RecordTXT.Name t) = [] \<Longrightarrow>
   (a \<in> set (concat (map (\<lambda>x. theResult (bodyTXT AsString t [] q x [])) objs))) =
   (ObjTXT a \<in> set objs \<and>
      (RecordTXT.Ref a = [] \<or>
       Contains q (''text:'' @ AsString (RecordTXT.Text a) @ '' name:'' @
                   AsString (RecordTXT.Name a)) \<or>
       Contains q (''zone:'' @ RecordTXT.Zone a)))"
proof (induction objs)
  case Nil
  then show ?case by simp
next
  case (Cons x objs)
  then show ?case by (cases x) (auto simp: Let_def)
qed

lemma in_found_Host:
  "AsString (HostRecord.Name t) = [] \<Longrightarrow>
   \<forall>h. ObjHost h \<in> set objs \<longrightarrow> HostRecord.Ipv4Addrs h \<noteq> [] \<Longrightarrow>
   (a \<in> set (concat (map (\<lambda>x. theResult (bodyHost AsString t [] q x [])) objs))) =
   (ObjHost a \<in> set objs \<and>
      (HostRecord.Ref a = [] \<or>
       Contains q (''ipv4addrs:'' @
                   AsString (HostRecordIpv4Addr.Ipv4Addr (hd (HostRecord.Ipv4Addrs a))) @
                   '' name:'' @ AsString (HostRecord.Name a)) \<or>
       Contains q (''zone:'' @ HostRecord.Zone a)))"
proof (induction objs)
  case Nil
  then show ?case by simp
next
  case (Cons x objs)
  then show ?case by (cases x) (auto simp: Let_def split: list.splits)
qed

lemma in_found_PTR:
  "deref (RecordPTR.PtrdName t) = Some [] \<Longrightarrow>
   (a \<in> set (concat (map (\<lambda>x. theResult (bodyPTR AsString t [] q x [])) objs))) =
   (ObjPTR a \<in> set objs \<and>
      (RecordPTR.Ref a = [] \<or>
       Contains q (''ipv4addr:'' @ AsString (RecordPTR.Ipv4Addr a) @ '' name:'' @
                   AsString (RecordPTR.Name a)) \<or>
       Contains q (''zone:'' @ RecordPTR.Zone a)))"
proof (induction objs)
  case Nil
  then show ?case by simp
next
  case (Cons x objs)
  then show ?case by (cases x) (auto simp: Let_def)
qed







subsection \<open>The reference pattern\<close>



subsection \<open>DeleteObject\<close>

lemma onlyLogs_refl: "onlyLogs client client"
  by (simp add: onlyLogs_def)

lemma onlyLogs_GetObject: "onlyLogs client (fst (GetObject AsString client obj ref queryParams))"
  by (simp add: onlyLogs_def GetObject_fst)

lemma onlyLogs_deleteRecords:
  "onlyLogs client client' \<Longrightarrow>
   onlyLogs client (fst (deleteRecords nameOf recordType client' records))"
  unfolding onlyLogs_def
  using rangeRecords_prefix[of "deletedEndpoints client'" nameOf recordType records]
  by (auto simp: deleteRecords_def split: prod.splits outcome.splits)



lemma foundA_onlyLogs:
  "onlyLogs client
     (fst (case GetObject AsString client obj ref queryParams of
             (client', Return (ResA records)) \<Rightarrow>
               deleteRecords nameOf recordType client' records
           | (client', _) \<Rightarrow> (client', Panic)))"
proof (cases "GetObject AsString client obj ref queryParams")
  case (Pair client' out)
  then have logs: "onlyLogs client client'"
    using onlyLogs_GetObject[of client AsString obj ref queryParams] by simp
  show ?thesis
  proof (cases out)
    case Panic
    with Pair logs show ?thesis by simp
  next
    case (Return res)
    with Pair logs show ?thesis by (cases res) (simp_all add: onlyLogs_deleteRecords)
  qed
qed



lemma foundCNAME_onlyLogs:
  "onlyLogs client
     (fst (case GetObject AsString client obj ref queryParams of
             (client', Return (ResCNAME records)) \<Rightarrow>
               deleteRecords nameOf recordType client' records
           | (client', _) \<Rightarrow> (client', Panic)))"
proof (cases "GetObject AsString client obj ref queryParams")
  case (Pair client' out)
  then have logs: "onlyLogs client client'"
    using onlyLogs_GetObject[of client AsString obj ref queryParams] by simp
  show ?thesis
  proof (cases out)
    case Panic
    with Pair logs show ?thesis by simp
  next
    case (Return res)
    with Pair logs show ?thesis by (cases res) (simp_all add: onlyLogs_deleteRecords)
  qed
qed



lemma foundHost_onlyLogs:
  "onlyLogs client
     (fst (case GetObject AsString client obj ref queryParams of
             (client', Return (ResHost records)) \<Rightarrow>
               deleteRecords nameOf recordType client' records
           | (client', _) \<Rightarrow> (client', Panic)))"
proof (cases "GetObject AsString client obj ref queryParams")
  case (Pair client' out)
  then have logs: "onlyLogs client client'"
    using onlyLogs_GetObject[of client AsString obj ref queryParams] by simp
  show ?thesis
  proof (cases out)
    case Panic
    with Pair logs show ?thesis by simp
  next
    case (Return res)
    with Pair logs show ?thesis by (cases res) (simp_all add: onlyLogs_deleteRecords)
  qed
qed



lemma foundTXT_onlyLogs:
  "onlyLogs client
     (fst (case GetObject AsString client obj ref queryParams of
             (client', Return (ResTXT records)) \<Rightarrow>
               deleteRecords nameOf recordType client' records
           | (client', _) \<Rightarrow> (client', Panic)))"
proof (cases "GetObject AsString client obj ref queryParams")
  case (Pair client' out)
  then have logs: "onlyLogs client client'"
    using onlyLogs_GetObject[of client AsString obj ref queryParams] by simp
  show ?thesis
  proof (cases out)
    case Panic
    with Pair logs show ?thesis by simp
  next
    case (Return res)
    with Pair logs show ?thesis by (cases res) (simp_all add: onlyLogs_deleteRecords)
  qed
qed



lemma foundPTR_onlyLogs:
  "onlyLogs client
     (fst (case GetObject AsString client obj ref queryParams of
             (client', Return (ResPTR records)) \<Rightarrow>
               deleteRecords nameOf recordType client' records
           | (client', _) \<Rightarrow> (client', Panic)))"
proof (cases "GetObject AsString client obj ref queryParams")
  case (Pair client' out)
  then have logs: "onlyLogs client client'"
    using onlyLogs_GetObject[of client AsString obj ref queryParams] by simp
  show ?thesis
  proof (cases out)
    case Panic
    with Pair logs show ?thesis by simp
  next
    case (Return res)
    with Pair logs show ?thesis by (cases res) (simp_all add: onlyLogs_deleteRecords)
  qed
qed



lemmas found_onlyLogs =
  foundA_onlyLogs foundCNAME_onlyLogs foundHost_onlyLogs foundTXT_onlyLogs foundPTR_onlyLogs

lemma DeleteObject_onlyLogs: "onlyLogs client (fst (DeleteObject AsString client ref))"
  unfolding DeleteObject_def Let_def
  by (simp add: found_onlyLogs onlyLogs_refl if_distrib[of fst]
      if_distrib[of "onlyLogs client"] cong: if_cong)



lemma DeleteObject_no_match:
  "FindStringSubmatch ref = [] \<Longrightarrow> DeleteObject AsString client ref = (client, Panic)"
  by (simp add: DeleteObject_def)


section \<open>Zone selection: the claim\<close>

text \<open>
  Claim C2. For every zone list and every name, forward zone selection returns nil exactly
  when no zone's \<open>Fqdn\<close> equals the name or is a dot-boundary suffix of it (the name ends
  with \<open>"." + Fqdn\<close>); and a zone it returns is one of the list, matches the name in this
  way, and has an \<open>Fqdn\<close> at least as long as that of every matching zone of the list. For
  the zones \<open>example.com\<close> and \<open>lvl1.example.com\<close> it selects \<open>lvl1.example.com\<close> for
  \<open>x.lvl1.example.com\<close> and \<open>example.com\<close> for \<open>x.example.com\<close>.
\<close>

theorem FindZone_longest_suffix:
  "(FindZone zones name = None) =
     (\<forall>z \<in> set zones. \<not> (name = Fqdn z \<or> suffix (''.'' @ Fqdn z) name))
   \<and> (\<forall>z. FindZone zones name = Some z \<longrightarrow>
          z \<in> set zones \<and> (name = Fqdn z \<or> suffix (''.'' @ Fqdn z) name) \<and>
          (\<forall>z' \<in> set zones. name = Fqdn z' \<or> suffix (''.'' @ Fqdn z') name \<longrightarrow>
             length (Fqdn z') \<le> length (Fqdn z)))
   \<and> FindZone [createMockInfobloxZone ''example.com'', createMockInfobloxZone ''lvl1.example.com'']
        ''x.lvl1.example.com'' = Some (createMockInfobloxZone ''lvl1.example.com'')
   \<and> FindZone [createMockInfobloxZone ''example.com'', createMockInfobloxZone ''lvl1.example.com'']
        ''x.example.com'' = Some (createMockInfobloxZone ''example.com'')"
proof (intro conjI allI impI)
  show "(FindZone zones name = None) =
     (\<forall>z \<in> set zones. \<not> (name = Fqdn z \<or> suffix (''.'' @ Fqdn z) name))"
    by (simp add: FindZone_def rangeZones_None zoneMatches_def)
next
  fix z assume z: "FindZone zones name = Some z"
  from rangeZones_Some[of zones name None z] z
  show "z \<in> set zones" and "name = Fqdn z \<or> suffix (''.'' @ Fqdn z) name"
    and "\<forall>z' \<in> set zones. name = Fqdn z' \<or> suffix (''.'' @ Fqdn z') name \<longrightarrow>
             length (Fqdn z') \<le> length (Fqdn z)"
    by (simp_all add: FindZone_def zoneMatches_def)
next
  show "FindZone [createMockInfobloxZone ''example.com'', createMockInfobloxZone ''lvl1.example.com'']
        ''x.lvl1.example.com'' = Some (createMockInfobloxZone ''lvl1.example.com'')"
    by (simp add: FindZone_def zoneMatches_def createMockInfobloxZone_def suffix_to_prefix)
next
  show "FindZone [createMockInfobloxZone ''example.com'', createMockInfobloxZone ''lvl1.example.com'']
        ''x.example.com'' = Some (createMockInfobloxZone ''example.com'')"
    by (simp add: FindZone_def zoneMatches_def createMockInfobloxZone_def suffix_to_prefix)
qed

theorem FindZone_longest_suffix_witness:
  "FindZone [createMockInfobloxZone ''example.com'', createMockInfobloxZone ''lvl1-1.example.com'',
             createMockInfobloxZone ''lvl2-1.lvl1-1.example.com'', createMockInfobloxZone ''1.2.3.0/24'']
     ''lvl2-2.lvl1-1.example.com'' = Some (createMockInfobloxZone ''lvl1-1.example.com'')
   \<and> suffix (''.'' @ Fqdn (createMockInfobloxZone ''lvl1-1.example.com'')) ''lvl2-2.lvl1-1.example.com''
   \<and> length (Fqdn (createMockInfobloxZone ''example.com'')) \<le>
       length (Fqdn (createMockInfobloxZone ''lvl1-1.example.com''))
   \<and> FindZone [createMockInfobloxZone ''example.com'', createMockInfobloxZone ''lvl1-1.example.com'',
             createMockInfobloxZone ''lvl2-1.lvl1-1.example.com'', createMockInfobloxZone ''1.2.3.0/24'']
     ''nomatch-example.com'' = None"
proof -
  let ?zones = "[createMockInfobloxZone ''example.com'', createMockInfobloxZone ''lvl1-1.example.com'',
             createMockInfobloxZone ''lvl2-1.lvl1-1.example.com'', createMockInfobloxZone ''1.2.3.0/24'']"
  have found: "FindZone ?zones ''lvl2-2.lvl1-1.example.com'' =
      Some (createMockInfobloxZone ''lvl1-1.example.com'')"
    by (simp add: FindZone_def zoneMatches_def createMockInfobloxZone_def suffix_to_prefix)
  have none: "\<forall>z \<in> set ?zones. \<not> (''nomatch-example.com'' = Fqdn z \<or>
      suffix (''.'' @ Fqdn z) ''nomatch-example.com'')"
    by (simp add: createMockInfobloxZone_def suffix_to_prefix)
  have ex: "createMockInfobloxZone ''example.com'' \<in> set ?zones" by simp
  have exm: "''lvl2-2.lvl1-1.example.com'' = Fqdn (createMockInfobloxZone ''example.com'') \<or>
      suffix (''.'' @ Fqdn (createMockInfobloxZone ''example.com'')) ''lvl2-2.lvl1-1.example.com''"
    by (simp add: createMockInfobloxZone_def suffix_to_prefix)
  from FindZone_longest_suffix[of ?zones "''lvl2-2.lvl1-1.example.com''"] found ex exm
  have 1: "suffix (''.'' @ Fqdn (createMockInfobloxZone ''lvl1-1.example.com'')) ''lvl2-2.lvl1-1.example.com''"
    and 2: "length (Fqdn (createMockInfobloxZone ''example.com'')) \<le>
       length (Fqdn (createMockInfobloxZone ''lvl1-1.example.com''))"
    by (auto simp: createMockInfobloxZone_def)
  from FindZone_longest_suffix[of ?zones "''nomatch-example.com''"] none
  have 3: "FindZone ?zones ''nomatch-example.com'' = None" by blast
  from found 1 2 3 show ?thesis by blast
qed

section \<open>The connector: the claims\<close>

text \<open>The encoding on the test vectors of RFC 4648.\<close>

lemma EncodeToString_RFC4648:
  "EncodeToString [] = []"
  "EncodeToString ''f'' = ''Zg==''"
  "EncodeToString ''fo'' = ''Zm8=''"
  "EncodeToString ''foo'' = ''Zm9v''"
  "EncodeToString ''foob'' = ''Zm9vYg==''"
  "EncodeToString ''fooba'' = ''Zm9vYmE=''"
  "EncodeToString ''foobar'' = ''Zm9vYmFy''"
  by (simp_all add: sextet_def encodeStd_def)

lemma EncodeToString_examples:
  "EncodeToString ''example.com'' = ''ZXhhbXBsZS5jb20=''"
  "EncodeToString ''host.example.com'' = ''aG9zdC5leGFtcGxlLmNvbQ==''"
  by (simp_all add: sextet_def encodeStd_def)

text \<open>
  Claim C1, as amended. For a record object of type \<open>record:a\<close>, \<open>record:cname\<close>,
  \<open>record:host\<close>, \<open>record:txt\<close> or \<open>record:ptr\<close> whose pointer fields the call
  dereferences are not nil (\<open>Name\<close> and \<open>Ipv4Addr\<close> for A, \<open>Name\<close> and \<open>Canonical\<close> for
  CNAME, \<open>Name\<close> and the \<open>Ipv4Addr\<close> of every address for HOST, \<open>Name\<close> and \<open>Text\<close> for
  TXT, \<open>PtrdName\<close> and \<open>Ipv4Addr\<close> for PTR) and, for PTR, whose address \<open>ReverseAddr\<close>
  accepts, \<open>CreateObject\<close> returns, with a nil error, the reference
  \<open>ObjectType + "/" + base64(name) + ":" + discriminator + "/default"\<close>: the name is the
  record name (\<open>PtrdName\<close> for PTR), and the discriminator is the record name for A, CNAME,
  HOST and TXT and the reverse lookup name of \<open>Ipv4Addr\<close> for PTR. Where one of these
  pointers is nil, \<open>CreateObject\<close> panics: it returns no reference, and the stored objects
  are as before.
\<close>

theorem CreateObject_reference:
  "(\<forall>a name ip. RecordA.Name a = Some name \<and> RecordA.Ipv4Addr a = Some ip \<longrightarrow>
      snd (CreateObject ReverseAddr client (ObjA a)) =
        Return (ObjectType (ObjA a) @ ''/'' @ EncodeToString name @ '':'' @ name @ ''/default'',
                None))
   \<and> (\<forall>a. RecordA.Name a = None \<or> RecordA.Ipv4Addr a = None \<longrightarrow>
        CreateObject ReverseAddr client (ObjA a) = (client, Panic))
   \<and> (\<forall>c name canonical.
        RecordCNAME.Name c = Some name \<and> RecordCNAME.Canonical c = Some canonical \<longrightarrow>
      snd (CreateObject ReverseAddr client (ObjCNAME c)) =
        Return (ObjectType (ObjCNAME c) @ ''/'' @ EncodeToString name @ '':'' @ name @
                ''/default'', None))
   \<and> (\<forall>c. RecordCNAME.Name c = None \<or> RecordCNAME.Canonical c = None \<longrightarrow>
        CreateObject ReverseAddr client (ObjCNAME c) = (client, Panic))
   \<and> (\<forall>h name. HostRecord.Name h = Some name \<and>
        (\<forall>i \<in> set (HostRecord.Ipv4Addrs h). HostRecordIpv4Addr.Ipv4Addr i \<noteq> None) \<longrightarrow>
      snd (CreateObject ReverseAddr client (ObjHost h)) =
        Return (ObjectType (ObjHost h) @ ''/'' @ EncodeToString name @ '':'' @ name @
                ''/default'', None))
   \<and> (\<forall>h. HostRecord.Name h = None \<or>
        (\<exists>i \<in> set (HostRecord.Ipv4Addrs h). HostRecordIpv4Addr.Ipv4Addr i = None) \<longrightarrow>
        snd (CreateObject ReverseAddr client (ObjHost h)) = Panic \<and>
        mockInfobloxObjects (fst (CreateObject ReverseAddr client (ObjHost h))) =
          mockInfobloxObjects client)
   \<and> (\<forall>t name txt. RecordTXT.Name t = Some name \<and> RecordTXT.Text t = Some txt \<longrightarrow>
      snd (CreateObject ReverseAddr client (ObjTXT t)) =
        Return (ObjectType (ObjTXT t) @ ''/'' @ EncodeToString name @ '':'' @ name @
                ''/default'', None))
   \<and> (\<forall>t. RecordTXT.Name t = None \<or> RecordTXT.Text t = None \<longrightarrow>
        CreateObject ReverseAddr client (ObjTXT t) = (client, Panic))
   \<and> (\<forall>p a ptrdName ip reverseAddr.
        RecordPTR.PtrdName p = Ptr a ptrdName \<and> RecordPTR.Ipv4Addr p = Some ip \<and>
        ReverseAddr ip = Some reverseAddr \<longrightarrow>
      snd (CreateObject ReverseAddr client (ObjPTR p)) =
        Return (ObjectType (ObjPTR p) @ ''/'' @ EncodeToString ptrdName @ '':'' @ reverseAddr @
                ''/default'', None))
   \<and> (\<forall>p. RecordPTR.PtrdName p = nil \<or> RecordPTR.Ipv4Addr p = None \<longrightarrow>
        CreateObject ReverseAddr client (ObjPTR p) = (client, Panic))"
proof (intro conjI, goal_cases)
  case 6
  show ?case
  proof (intro allI impI conjI)
    fix h :: HostRecord
    assume "HostRecord.Name h = None \<or>
        (\<exists>i \<in> set (HostRecord.Ipv4Addrs h). HostRecordIpv4Addr.Ipv4Addr i = None)"
    then show panic: "snd (CreateObject ReverseAddr client (ObjHost h)) = Panic"
      by (rule CreateObject_Host_Panic)
    then show "mockInfobloxObjects (fst (CreateObject ReverseAddr client (ObjHost h))) =
          mockInfobloxObjects client"
      by (auto simp: Let_def split: prod.splits outcome.splits option.splits)
  qed
qed (auto simp: reference_def Let_def rangeIpv4Addrs_Return split: option.splits)

theorem CreateObject_reference_witness:
  "snd (CreateObject reverseAddrOfHost emptyClient (ObjA newA)) =
     Return (''record:a/ZXhhbXBsZS5jb20=:example.com/default'', None)
   \<and> snd (CreateObject reverseAddrOfHost emptyClient (ObjCNAME newCNAME)) =
     Return (''record:cname/ZXhhbXBsZS5jb20=:example.com/default'', None)
   \<and> snd (CreateObject reverseAddrOfHost emptyClient (ObjHost newHost)) =
     Return (''record:host/aG9zdC5leGFtcGxlLmNvbQ==:host.example.com/default'', None)
   \<and> snd (CreateObject reverseAddrOfHost emptyClient (ObjTXT newTXT)) =
     Return (''record:txt/ZXhhbXBsZS5jb20=:example.com/default'', None)
   \<and> snd (CreateObject reverseAddrOfHost emptyClient (ObjPTR newPTR)) =
     Return (''record:ptr/aG9zdC5leGFtcGxlLmNvbQ==:1.1.1.125.in-addr.arpa./default'', None)
   \<and> CreateObject reverseAddrOfHost emptyClient (ObjA (newA\<lparr>RecordA.Name := None\<rparr>)) =
       (emptyClient, Panic)
   \<and> CreateObject reverseAddrOfHost emptyClient
        (ObjCNAME (newCNAME\<lparr>RecordCNAME.Name := None\<rparr>)) = (emptyClient, Panic)
   \<and> snd (CreateObject reverseAddrOfHost emptyClient
        (ObjHost (newHost\<lparr>HostRecord.Name := None\<rparr>))) = Panic
   \<and> CreateObject reverseAddrOfHost emptyClient (ObjTXT (newTXT\<lparr>RecordTXT.Name := None\<rparr>)) =
       (emptyClient, Panic)
   \<and> CreateObject reverseAddrOfHost emptyClient
        (ObjPTR (newPTR\<lparr>RecordPTR.Ipv4Addr := None\<rparr>)) = (emptyClient, Panic)"
proof -
  note inst = CreateObject_reference[of reverseAddrOfHost emptyClient]
  have a: "RecordA.Name newA = Some ''example.com'' \<and> RecordA.Ipv4Addr newA = Some ''1.2.3.4''"
    and c: "RecordCNAME.Name newCNAME = Some ''example.com'' \<and>
        RecordCNAME.Canonical newCNAME = Some ''target.example.com''"
    and h: "HostRecord.Name newHost = Some ''host.example.com'' \<and>
        (\<forall>i \<in> set (HostRecord.Ipv4Addrs newHost). HostRecordIpv4Addr.Ipv4Addr i \<noteq> None)"
    and t: "RecordTXT.Name newTXT = Some ''example.com'' \<and> RecordTXT.Text newTXT = Some ''tag''"
    and p: "RecordPTR.PtrdName newPTR = Ptr 0 ''host.example.com'' \<and>
        RecordPTR.Ipv4Addr newPTR = Some ''125.1.1.1'' \<and>
        reverseAddrOfHost ''125.1.1.1'' = Some ''1.1.1.125.in-addr.arpa.''"
    by (simp_all add: newA_def newCNAME_def newHost_def newTXT_def newPTR_def
        reverseAddrOfHost_def)
  have na: "RecordA.Name (newA\<lparr>RecordA.Name := None\<rparr>) = None \<or>
        RecordA.Ipv4Addr (newA\<lparr>RecordA.Name := None\<rparr>) = None"
    and nc: "RecordCNAME.Name (newCNAME\<lparr>RecordCNAME.Name := None\<rparr>) = None \<or>
        RecordCNAME.Canonical (newCNAME\<lparr>RecordCNAME.Name := None\<rparr>) = None"
    and nh: "HostRecord.Name (newHost\<lparr>HostRecord.Name := None\<rparr>) = None \<or>
        (\<exists>i \<in> set (HostRecord.Ipv4Addrs (newHost\<lparr>HostRecord.Name := None\<rparr>)).
           HostRecordIpv4Addr.Ipv4Addr i = None)"
    and nt: "RecordTXT.Name (newTXT\<lparr>RecordTXT.Name := None\<rparr>) = None \<or>
        RecordTXT.Text (newTXT\<lparr>RecordTXT.Name := None\<rparr>) = None"
    and np: "RecordPTR.PtrdName (newPTR\<lparr>RecordPTR.Ipv4Addr := None\<rparr>) = nil \<or>
        RecordPTR.Ipv4Addr (newPTR\<lparr>RecordPTR.Ipv4Addr := None\<rparr>) = None"
    by simp_all
  note 1 = inst[THEN conjunct1, rule_format, OF a]
  note 2 = inst[THEN conjunct2, THEN conjunct1, rule_format, OF na]
  note 3 = inst[THEN conjunct2, THEN conjunct2, THEN conjunct1, rule_format, OF c]
  note 4 = inst[THEN conjunct2, THEN conjunct2, THEN conjunct2, THEN conjunct1, rule_format,
      OF nc]
  note 5 = inst[THEN conjunct2, THEN conjunct2, THEN conjunct2, THEN conjunct2, THEN conjunct1,
      rule_format, OF h]
  note 6 = inst[THEN conjunct2, THEN conjunct2, THEN conjunct2, THEN conjunct2, THEN conjunct2,
      THEN conjunct1, rule_format, OF nh, THEN conjunct1]
  note 7 = inst[THEN conjunct2, THEN conjunct2, THEN conjunct2, THEN conjunct2, THEN conjunct2,
      THEN conjunct2, THEN conjunct1, rule_format, OF t]
  note 8 = inst[THEN conjunct2, THEN conjunct2, THEN conjunct2, THEN conjunct2, THEN conjunct2,
      THEN conjunct2, THEN conjunct2, THEN conjunct1, rule_format, OF nt]
  note 9 = inst[THEN conjunct2, THEN conjunct2, THEN conjunct2, THEN conjunct2, THEN conjunct2,
      THEN conjunct2, THEN conjunct2, THEN conjunct2, THEN conjunct1, rule_format, OF p]
  note 10 = inst[THEN conjunct2, THEN conjunct2, THEN conjunct2, THEN conjunct2, THEN conjunct2,
      THEN conjunct2, THEN conjunct2, THEN conjunct2, THEN conjunct2, rule_format, OF np]
  from 1 3 5 7 9
  have "snd (CreateObject reverseAddrOfHost emptyClient (ObjA newA)) =
     Return (''record:a/ZXhhbXBsZS5jb20=:example.com/default'', None)"
    and "snd (CreateObject reverseAddrOfHost emptyClient (ObjCNAME newCNAME)) =
     Return (''record:cname/ZXhhbXBsZS5jb20=:example.com/default'', None)"
    and "snd (CreateObject reverseAddrOfHost emptyClient (ObjHost newHost)) =
     Return (''record:host/aG9zdC5leGFtcGxlLmNvbQ==:host.example.com/default'', None)"
    and "snd (CreateObject reverseAddrOfHost emptyClient (ObjTXT newTXT)) =
     Return (''record:txt/ZXhhbXBsZS5jb20=:example.com/default'', None)"
    and "snd (CreateObject reverseAddrOfHost emptyClient (ObjPTR newPTR)) =
     Return (''record:ptr/aG9zdC5leGFtcGxlLmNvbQ==:1.1.1.125.in-addr.arpa./default'', None)"
    by (simp_all only: ObjectType.simps EncodeToString_examples recordA_def recordCname_def
        recordTxt_def recordHost_def recordPtr_def append.simps)
  with 2 4 6 8 10 show ?thesis by (intro conjI)
qed

text \<open>
  The claim as it was stated speaks of every record object. A record object whose name is
  set and whose value pointer is nil makes \<open>CreateObject\<close> dereference the nil pointer: the
  call panics and returns no reference.
\<close>

theorem CreateObject_reference_counterexample:
  "RecordA.Name (newA\<lparr>RecordA.Ipv4Addr := None\<rparr>) = Some ''example.com''
   \<and> CreateObject reverseAddrOfHost emptyClient (ObjA (newA\<lparr>RecordA.Ipv4Addr := None\<rparr>)) =
       (emptyClient, Panic)
   \<and> CreateObject reverseAddrOfHost emptyClient
        (ObjCNAME (newCNAME\<lparr>RecordCNAME.Canonical := None\<rparr>)) = (emptyClient, Panic)
   \<and> snd (CreateObject reverseAddrOfHost emptyClient
        (ObjHost (newHost\<lparr>HostRecord.Ipv4Addrs :=
           [\<lparr>HostRecordIpv4Addr.Ipv4Addr = None\<rparr>]\<rparr>))) = Panic
   \<and> CreateObject reverseAddrOfHost emptyClient (ObjTXT (newTXT\<lparr>RecordTXT.Text := None\<rparr>)) =
       (emptyClient, Panic)
   \<and> reverseAddrOfHost ''125.1.1.1'' = Some ''1.1.1.125.in-addr.arpa.''
   \<and> RecordPTR.Ipv4Addr (newPTR\<lparr>RecordPTR.PtrdName := nil\<rparr>) = Some ''125.1.1.1''
   \<and> CreateObject reverseAddrOfHost emptyClient
        (ObjPTR (newPTR\<lparr>RecordPTR.PtrdName := nil\<rparr>)) = (emptyClient, Panic)"
  by (simp add: newA_def newCNAME_def newHost_def newTXT_def newPTR_def reverseAddrOfHost_def)

text \<open>
  Claim C4, as amended. \<open>CreateObject\<close> on a \<open>record:ptr\<close> object returns an error
  exactly when the object's \<open>PtrdName\<close> and \<open>Ipv4Addr\<close> are not nil and \<open>ReverseAddr\<close>
  rejects the address; the error then reaches the caller, with an empty reference, and the
  stored objects are as before. Where \<open>PtrdName\<close> or \<open>Ipv4Addr\<close> is nil the call panics
  and returns no error. For every object of another type \<open>CreateObject\<close> never returns an
  error.
\<close>

theorem CreateObject_errors:
  "(\<forall>p. returnsError (snd (CreateObject ReverseAddr client (ObjPTR p))) =
          (RecordPTR.PtrdName p \<noteq> nil \<and>
           (\<exists>ip. RecordPTR.Ipv4Addr p = Some ip \<and> ReverseAddr ip = None)))
   \<and> (\<forall>p ip. RecordPTR.PtrdName p \<noteq> nil \<and> RecordPTR.Ipv4Addr p = Some ip \<and>
          ReverseAddr ip = None \<longrightarrow>
          snd (CreateObject ReverseAddr client (ObjPTR p)) =
            Return ([], Some (Errorf (''unable to create reverse addr from '' @ ip))) \<and>
          mockInfobloxObjects (fst (CreateObject ReverseAddr client (ObjPTR p))) =
            mockInfobloxObjects client)
   \<and> (\<forall>p. RecordPTR.PtrdName p = nil \<or> RecordPTR.Ipv4Addr p = None \<longrightarrow>
          CreateObject ReverseAddr client (ObjPTR p) = (client, Panic))
   \<and> (\<forall>p. returnsError (snd (CreateObject ReverseAddr client (ObjPTR p))) \<longrightarrow>
          mockInfobloxObjects (fst (CreateObject ReverseAddr client (ObjPTR p))) =
            mockInfobloxObjects client)
   \<and> (\<forall>obj. (\<forall>p. obj \<noteq> ObjPTR p) \<longrightarrow>
          \<not> returnsError (snd (CreateObject ReverseAddr client obj)))"
proof (intro conjI, goal_cases)
  case 1
  show ?case
  proof
    fix p :: RecordPTR
    show "returnsError (snd (CreateObject ReverseAddr client (ObjPTR p))) =
          (RecordPTR.PtrdName p \<noteq> nil \<and>
           (\<exists>ip. RecordPTR.Ipv4Addr p = Some ip \<and> ReverseAddr ip = None))"
      by (cases "RecordPTR.PtrdName p"; cases "RecordPTR.Ipv4Addr p")
         (auto simp: Let_def split: option.splits)
  qed
next
  case 2
  show ?case
  proof (intro allI impI)
    fix p :: RecordPTR and ip
    assume "RecordPTR.PtrdName p \<noteq> nil \<and> RecordPTR.Ipv4Addr p = Some ip \<and>
          ReverseAddr ip = None"
    then show "snd (CreateObject ReverseAddr client (ObjPTR p)) =
            Return ([], Some (Errorf (''unable to create reverse addr from '' @ ip))) \<and>
          mockInfobloxObjects (fst (CreateObject ReverseAddr client (ObjPTR p))) =
            mockInfobloxObjects client"
      by (cases "RecordPTR.PtrdName p") (auto simp: Let_def)
  qed
next
  case 3
  show ?case
  proof (intro allI impI)
    fix p :: RecordPTR
    assume "RecordPTR.PtrdName p = nil \<or> RecordPTR.Ipv4Addr p = None"
    then show "CreateObject ReverseAddr client (ObjPTR p) = (client, Panic)"
      by (cases "RecordPTR.PtrdName p") (auto simp: Let_def split: option.splits)
  qed
next
  case 4
  show ?case by (auto simp: Let_def split: option.splits)
next
  case 5
  show ?case by (intro allI impI, rule CreateObject_other_no_error)
qed

theorem CreateObject_errors_witness:
  "returnsError (snd (CreateObject reverseAddrOfHost emptyClient
      (ObjPTR (newPTR\<lparr>RecordPTR.Ipv4Addr := Some ''not-an-address''\<rparr>))))
   \<and> snd (CreateObject reverseAddrOfHost emptyClient
      (ObjPTR (newPTR\<lparr>RecordPTR.Ipv4Addr := Some ''not-an-address''\<rparr>))) =
       Return ([], Some (Errorf ''unable to create reverse addr from not-an-address''))
   \<and> mockInfobloxObjects (fst (CreateObject reverseAddrOfHost emptyClient
      (ObjPTR (newPTR\<lparr>RecordPTR.Ipv4Addr := Some ''not-an-address''\<rparr>)))) = []
   \<and> \<not> returnsError (snd (CreateObject reverseAddrOfHost emptyClient (ObjPTR newPTR)))
   \<and> CreateObject reverseAddrOfHost emptyClient
        (ObjPTR (newPTR\<lparr>RecordPTR.Ipv4Addr := None\<rparr>)) = (emptyClient, Panic)
   \<and> \<not> returnsError (snd (CreateObject reverseAddrOfHost emptyClient
      (ObjA (newA\<lparr>RecordA.Ipv4Addr := Some ''not-an-address''\<rparr>))))"
proof -
  let ?bad = "newPTR\<lparr>RecordPTR.Ipv4Addr := Some ''not-an-address''\<rparr>"
  let ?a = "newA\<lparr>RecordA.Ipv4Addr := Some ''not-an-address''\<rparr>"
  note inst = CreateObject_errors[of reverseAddrOfHost emptyClient]
  have bad: "RecordPTR.PtrdName ?bad \<noteq> nil \<and> RecordPTR.Ipv4Addr ?bad = Some ''not-an-address'' \<and>
      reverseAddrOfHost ''not-an-address'' = None"
    and good: "\<not> (RecordPTR.PtrdName newPTR \<noteq> nil \<and>
           (\<exists>ip. RecordPTR.Ipv4Addr newPTR = Some ip \<and> reverseAddrOfHost ip = None))"
    and np: "RecordPTR.PtrdName (newPTR\<lparr>RecordPTR.Ipv4Addr := None\<rparr>) = nil \<or>
        RecordPTR.Ipv4Addr (newPTR\<lparr>RecordPTR.Ipv4Addr := None\<rparr>) = None"
    by (simp_all add: newPTR_def reverseAddrOfHost_def)
  from inst[THEN conjunct2, THEN conjunct1, rule_format, OF bad]
  have 2: "snd (CreateObject reverseAddrOfHost emptyClient (ObjPTR ?bad)) =
       Return ([], Some (Errorf ''unable to create reverse addr from not-an-address''))"
    by simp
  then have 1: "returnsError (snd (CreateObject reverseAddrOfHost emptyClient (ObjPTR ?bad)))"
    by simp
  from inst[THEN conjunct2, THEN conjunct2, THEN conjunct2, THEN conjunct1, rule_format, OF 1]
  have 3: "mockInfobloxObjects
      (fst (CreateObject reverseAddrOfHost emptyClient (ObjPTR ?bad))) = []"
    by (simp add: emptyClient_def)
  from inst[THEN conjunct1, rule_format, of newPTR] good
  have 4: "\<not> returnsError (snd (CreateObject reverseAddrOfHost emptyClient (ObjPTR newPTR)))"
    by simp
  note 5 = inst[THEN conjunct2, THEN conjunct2, THEN conjunct1, rule_format, OF np]
  from inst[THEN conjunct2, THEN conjunct2, THEN conjunct2, THEN conjunct2, rule_format,
      of "ObjA ?a"]
  have 6: "\<not> returnsError (snd (CreateObject reverseAddrOfHost emptyClient (ObjA ?a)))"
    by simp
  from 1 2 3 4 5 6 show ?thesis by (intro conjI)
qed

text \<open>
  The claim as it was stated has the error for every PTR object whose address is not a
  valid IP address. The address is only looked at after \<open>PtrdName\<close> and \<open>Ipv4Addr\<close> are
  dereferenced: with a nil \<open>PtrdName\<close> and an address that \<open>ReverseAddr\<close> rejects, and
  with a nil \<open>Ipv4Addr\<close>, the call panics and returns no error.
\<close>

theorem CreateObject_errors_counterexample:
  "reverseAddrOfHost ''not-an-address'' = None
   \<and> RecordPTR.Ipv4Addr
        (newPTR\<lparr>RecordPTR.Ipv4Addr := Some ''not-an-address'', RecordPTR.PtrdName := nil\<rparr>) =
       Some ''not-an-address''
   \<and> CreateObject reverseAddrOfHost emptyClient
        (ObjPTR (newPTR\<lparr>RecordPTR.Ipv4Addr := Some ''not-an-address'',
                        RecordPTR.PtrdName := nil\<rparr>)) = (emptyClient, Panic)
   \<and> \<not> returnsError (snd (CreateObject reverseAddrOfHost emptyClient
        (ObjPTR (newPTR\<lparr>RecordPTR.Ipv4Addr := Some ''not-an-address'',
                        RecordPTR.PtrdName := nil\<rparr>))))
   \<and> CreateObject reverseAddrOfHost emptyClient
        (ObjPTR (newPTR\<lparr>RecordPTR.Ipv4Addr := None\<rparr>)) = (emptyClient, Panic)
   \<and> \<not> returnsError (snd (CreateObject reverseAddrOfHost emptyClient
        (ObjPTR (newPTR\<lparr>RecordPTR.Ipv4Addr := None\<rparr>))))"
  by (simp add: newPTR_def reverseAddrOfHost_def)

lemma doCall_fst:
  "fst (doCall AsString ReverseAddr client (Create obj)) = fst (CreateObject ReverseAddr client obj)"
  "fst (doCall AsString ReverseAddr client (Get obj ref queryParams)) =
     fst (GetObject AsString client obj ref queryParams)"
  "fst (doCall AsString ReverseAddr client (Update obj ref)) = fst (UpdateObject client obj ref)"
  "fst (doCall AsString ReverseAddr client (Delete ref)) = fst (DeleteObject AsString client ref)"
  by (simp_all split: prod.splits)

lemma DeleteObject_zones:
  "mockInfobloxZones (fst (DeleteObject AsString client ref)) = mockInfobloxZones client"
  using DeleteObject_onlyLogs[of client AsString ref] by (simp add: onlyLogs_def)

lemma doCall_zones:
  "mockInfobloxZones (fst (doCall AsString ReverseAddr client c)) = mockInfobloxZones client"
  by (cases c)
     (simp_all only: doCall_fst CreateObject_zones UpdateObject_fields DeleteObject_zones,
      simp add: GetObject_fst)

text \<open>
  Claim C7. The zone list is never mutated: after every sequence of \<open>CreateObject\<close>,
  \<open>GetObject\<close>, \<open>UpdateObject\<close> and \<open>DeleteObject\<close> calls (and after each single call,
  whether it returns or panics) \<open>mockInfobloxZones\<close> is what it was before; \<open>GetObject\<close> for
  \<open>zone_auth\<close> only reads it.
\<close>

theorem zones_never_mutated:
  "mockInfobloxZones (doCalls AsString ReverseAddr client calls) = mockInfobloxZones client
   \<and> mockInfobloxZones (fst (CreateObject ReverseAddr client obj)) = mockInfobloxZones client
   \<and> mockInfobloxZones (fst (GetObject AsString client obj ref queryParams)) =
       mockInfobloxZones client
   \<and> mockInfobloxZones (fst (UpdateObject client obj ref)) = mockInfobloxZones client
   \<and> mockInfobloxZones (fst (DeleteObject AsString client ref)) = mockInfobloxZones client
   \<and> snd (GetObject AsString client (ObjZoneAuth z) ref queryParams) =
       Return (ResZoneAuth (mockInfobloxZones client))"
proof -
  have "mockInfobloxZones (doCalls AsString ReverseAddr client calls) = mockInfobloxZones client"
  proof (induction calls arbitrary: client)
    case Nil
    then show ?case by simp
  next
    case (Cons c calls)
    obtain client' ok where step: "doCall AsString ReverseAddr client c = (client', ok)"
      by (cases "doCall AsString ReverseAddr client c")
    then have "mockInfobloxZones client' = mockInfobloxZones client"
      using doCall_zones[of AsString ReverseAddr client c] by simp
    then show ?case using step Cons.IH[of client'] by (cases ok) simp_all
  qed
  then show ?thesis
    by (simp add: CreateObject_zones GetObject_fst UpdateObject_fields DeleteObject_zones
        GetObject_snd)
qed

theorem zones_never_mutated_witness:
  "mockInfobloxZones
     (doCalls derefOrEmpty reverseAddrOfHost emptyClient
        [Create (ObjA \<lparr>RecordA.Ref = [], RecordA.Ipv4Addr = Some ''1.2.3.4'',
                        RecordA.Name = Some ''example.com'', RecordA.Zone = []\<rparr>),
         Get (ObjZoneAuth (createMockInfobloxZone [])) [] None,
         Update (ObjA \<lparr>RecordA.Ref = [], RecordA.Ipv4Addr = Some ''5.6.7.8'',
                        RecordA.Name = Some ''example.com'', RecordA.Zone = []\<rparr>)
           ''record:a/ZXhhbXBsZS5jb20=:example.com/default'',
         Delete ''record:a/ZXhhbXBsZS5jb20=:example.com/default'']) =
   [createMockInfobloxZone ''example.com'', createMockInfobloxZone ''other.com'']"
  using zones_never_mutated[of derefOrEmpty reverseAddrOfHost emptyClient, THEN conjunct1]
  by (simp only: emptyClient_def mockIBConnector.select_convs)

lemma found_by_ref_A:
  "ObjA a \<in> set objs \<Longrightarrow>
   a \<in> set (concat (map (\<lambda>x. theResult (bodyA AsString t (RecordA.Ref a) q x [])) objs))"
proof -
  assume stored: "ObjA a \<in> set objs"
  have "a \<in> set (theResult (bodyA AsString t (RecordA.Ref a) q (ObjA a) []))"
    by (simp add: Let_def)
  with stored show ?thesis
    by (auto simp del: bodyA.simps)
qed

lemma count_found_A:
  assumes "ref = RecordA.Ref a"
    and "AsString (RecordA.Name t) = [] \<or> AsString (RecordA.Name t) = AsString (RecordA.Name a)"
    and "Contains q (''ipv4addr:'' @ AsString (RecordA.Ipv4Addr a) @ '' name:'' @
                     AsString (RecordA.Name a)) \<or>
         Contains q (''zone:'' @ RecordA.Zone a)"
  shows "count_list (concat (map (\<lambda>x. theResult (bodyA AsString t ref q x [])) objs)) a =
           2 * count_list objs (ObjA a)"
proof (induction objs)
  case Nil
  then show ?case by simp
next
  case (Cons x objs)
  show ?case
  proof (cases x)
    case (ObjA b)
    show ?thesis
    proof (cases "b = a")
      case True
      with ObjA assms Cons.IH show ?thesis by (auto simp: Let_def)
    next
      case False
      with ObjA Cons.IH show ?thesis by (auto simp: Let_def)
    qed
  qed (use Cons.IH in simp_all)
qed

lemma GetObject_filter_A:
  assumes "AsString (RecordA.Name t) = []"
  shows "\<exists>records.
      snd (GetObject AsString client (ObjA t) [] queryParams) = Return (ResA records) \<and>
      (\<forall>a. RecordA.Ref a \<noteq> [] \<longrightarrow>
         (a \<in> set records) =
         (ObjA a \<in> set (mockInfobloxObjects client) \<and>
          (Contains (queryString queryParams)
             (''ipv4addr:'' @ AsString (RecordA.Ipv4Addr a) @ '' name:'' @
              AsString (RecordA.Name a)) \<or>
           Contains (queryString queryParams) (''zone:'' @ RecordA.Zone a))))"
proof (intro exI conjI allI impI)
  show "snd (GetObject AsString client (ObjA t) [] queryParams) =
    Return (ResA (concat (map (\<lambda>x. theResult (bodyA AsString t [] (queryString queryParams) x []))
      (mockInfobloxObjects client))))"
    by (simp only: GetObject_snd rangeObjects_bodyA mapOutcome.simps)
next
  fix a :: RecordA assume "RecordA.Ref a \<noteq> []"
  then show "(a \<in> set (concat (map (\<lambda>x. theResult (bodyA AsString t [] (queryString queryParams) x []))
      (mockInfobloxObjects client)))) =
         (ObjA a \<in> set (mockInfobloxObjects client) \<and>
          (Contains (queryString queryParams)
             (''ipv4addr:'' @ AsString (RecordA.Ipv4Addr a) @ '' name:'' @
              AsString (RecordA.Name a)) \<or>
           Contains (queryString queryParams) (''zone:'' @ RecordA.Zone a)))"
    by (simp only: in_found_A[of AsString t, OF assms] simp_thms)
qed

lemma GetObject_filter_CNAME:
  assumes "AsString (RecordCNAME.Name t) = []"
  shows "\<exists>records.
      snd (GetObject AsString client (ObjCNAME t) [] queryParams) = Return (ResCNAME records) \<and>
      (\<forall>a. RecordCNAME.Ref a \<noteq> [] \<longrightarrow>
         (a \<in> set records) =
         (ObjCNAME a \<in> set (mockInfobloxObjects client) \<and>
          (Contains (queryString queryParams) (''name:'' @ AsString (RecordCNAME.Name a)) \<or>
           Contains (queryString queryParams) (''zone:'' @ RecordCNAME.Zone a))))"
proof (intro exI conjI allI impI)
  show "snd (GetObject AsString client (ObjCNAME t) [] queryParams) =
    Return (ResCNAME (concat (map (\<lambda>x. theResult (bodyCNAME AsString t [] (queryString queryParams) x []))
      (mockInfobloxObjects client))))"
    by (simp only: GetObject_snd rangeObjects_bodyCNAME mapOutcome.simps)
next
  fix a :: RecordCNAME assume "RecordCNAME.Ref a \<noteq> []"
  then show "(a \<in> set (concat (map (\<lambda>x. theResult (bodyCNAME AsString t [] (queryString queryParams) x []))
      (mockInfobloxObjects client)))) =
         (ObjCNAME a \<in> set (mockInfobloxObjects client) \<and>
          (Contains (queryString queryParams) (''name:'' @ AsString (RecordCNAME.Name a)) \<or>
           Contains (queryString queryParams) (''zone:'' @ RecordCNAME.Zone a)))"
    by (simp only: in_found_CNAME[of AsString t, OF assms] simp_thms)
qed

lemma GetObject_filter_Host:
  assumes "AsString (HostRecord.Name t) = []"
    and "\<forall>h. ObjHost h \<in> set (mockInfobloxObjects client) \<longrightarrow> HostRecord.Ipv4Addrs h \<noteq> []"
  shows "\<exists>records.
      snd (GetObject AsString client (ObjHost t) [] queryParams) = Return (ResHost records) \<and>
      (\<forall>a. HostRecord.Ref a \<noteq> [] \<longrightarrow>
         (a \<in> set records) =
         (ObjHost a \<in> set (mockInfobloxObjects client) \<and>
          (Contains (queryString queryParams)
             (''ipv4addrs:'' @
              AsString (HostRecordIpv4Addr.Ipv4Addr (hd (HostRecord.Ipv4Addrs a))) @
              '' name:'' @ AsString (HostRecord.Name a)) \<or>
           Contains (queryString queryParams) (''zone:'' @ HostRecord.Zone a))))"
proof (intro exI conjI allI impI)
  show "snd (GetObject AsString client (ObjHost t) [] queryParams) =
    Return (ResHost (concat (map (\<lambda>x. theResult (bodyHost AsString t [] (queryString queryParams) x []))
      (mockInfobloxObjects client))))"
    by (simp only: GetObject_snd rangeObjects_bodyHost[OF assms(2)] mapOutcome.simps)
next
  fix a :: HostRecord assume "HostRecord.Ref a \<noteq> []"
  then show "(a \<in> set (concat (map (\<lambda>x. theResult (bodyHost AsString t [] (queryString queryParams) x []))
      (mockInfobloxObjects client)))) =
         (ObjHost a \<in> set (mockInfobloxObjects client) \<and>
          (Contains (queryString queryParams)
             (''ipv4addrs:'' @
              AsString (HostRecordIpv4Addr.Ipv4Addr (hd (HostRecord.Ipv4Addrs a))) @
              '' name:'' @ AsString (HostRecord.Name a)) \<or>
           Contains (queryString queryParams) (''zone:'' @ HostRecord.Zone a)))"
    by (simp only: in_found_Host[of AsString t, OF assms] simp_thms)
qed

lemma GetObject_filter_TXT:
  assumes "AsString (RecordTXT.Name t) = []"
  shows "\<exists>records.
      snd (GetObject AsString client (ObjTXT t) [] queryParams) = Return (ResTXT records) \<and>
      (\<forall>a. RecordTXT.Ref a \<noteq> [] \<longrightarrow>
         (a \<in> set records) =
         (ObjTXT a \<in> set (mockInfobloxObjects client) \<and>
          (Contains (queryString queryParams)
             (''text:'' @ AsString (RecordTXT.Text a) @ '' name:'' @
              AsString (RecordTXT.Name a)) \<or>
           Contains (queryString queryParams) (''zone:'' @ RecordTXT.Zone a))))"
proof (intro exI conjI allI impI)
  show "snd (GetObject AsString client (ObjTXT t) [] queryParams) =
    Return (ResTXT (concat (map (\<lambda>x. theResult (bodyTXT AsString t [] (queryString queryParams) x []))
      (mockInfobloxObjects client))))"
    by (simp only: GetObject_snd rangeObjects_bodyTXT mapOutcome.simps)
next
  fix a :: RecordTXT assume "RecordTXT.Ref a \<noteq> []"
  then show "(a \<in> set (concat (map (\<lambda>x. theResult (bodyTXT AsString t [] (queryString queryParams) x []))
      (mockInfobloxObjects client)))) =
         (ObjTXT a \<in> set (mockInfobloxObjects client) \<and>
          (Contains (queryString queryParams)
             (''text:'' @ AsString (RecordTXT.Text a) @ '' name:'' @
              AsString (RecordTXT.Name a)) \<or>
           Contains (queryString queryParams) (''zone:'' @ RecordTXT.Zone a)))"
    by (simp only: in_found_TXT[of AsString t, OF assms] simp_thms)
qed

lemma GetObject_filter_PTR:
  assumes "deref (RecordPTR.PtrdName t) = Some []"
  shows "\<exists>records.
      snd (GetObject AsString client (ObjPTR t) [] queryParams) = Return (ResPTR records) \<and>
      (\<forall>a. RecordPTR.Ref a \<noteq> [] \<longrightarrow>
         (a \<in> set records) =
         (ObjPTR a \<in> set (mockInfobloxObjects client) \<and>
          (Contains (queryString queryParams)
             (''ipv4addr:'' @ AsString (RecordPTR.Ipv4Addr a) @ '' name:'' @
              AsString (RecordPTR.Name a)) \<or>
           Contains (queryString queryParams) (''zone:'' @ RecordPTR.Zone a))))"
proof (intro exI conjI allI impI)
  have some: "deref (RecordPTR.PtrdName t) \<noteq> None" using assms by simp
  show "snd (GetObject AsString client (ObjPTR t) [] queryParams) =
    Return (ResPTR (concat (map (\<lambda>x. theResult (bodyPTR AsString t [] (queryString queryParams) x []))
      (mockInfobloxObjects client))))"
    by (simp only: GetObject_snd rangeObjects_bodyPTR[OF some] mapOutcome.simps)
next
  fix a :: RecordPTR assume "RecordPTR.Ref a \<noteq> []"
  then show "(a \<in> set (concat (map (\<lambda>x. theResult (bodyPTR AsString t [] (queryString queryParams) x []))
      (mockInfobloxObjects client)))) =
         (ObjPTR a \<in> set (mockInfobloxObjects client) \<and>
          (Contains (queryString queryParams)
             (''ipv4addr:'' @ AsString (RecordPTR.Ipv4Addr a) @ '' name:'' @
              AsString (RecordPTR.Name a)) \<or>
           Contains (queryString queryParams) (''zone:'' @ RecordPTR.Zone a)))"
    by (simp only: in_found_PTR[OF assms] simp_thms)
qed

lemma bodyA_no_query:
  "theResult (bodyA AsString t ref [] x []) =
     (case x of ObjA a \<Rightarrow> if ref = RecordA.Ref a then [a] else [] | _ \<Rightarrow> [])"
  by (cases x) (simp_all add: Let_def)

lemma case_found_A:
  "(case p of (client', Return (ResA records)) \<Rightarrow> f client' records
            | (client', _) \<Rightarrow> (client', Panic)) =
   (case snd p of Return (ResA records) \<Rightarrow> f (fst p) records | _ \<Rightarrow> (fst p, Panic))"
  by (cases p) (auto split: outcome.splits getResult.splits)

text \<open>
  With nil query parameters no filter of \<open>GetObject\<close> can pass, so \<open>DeleteObject\<close> of an
  A reference finds the A records that carry the reference, and no other.
\<close>

lemma DeleteObject_record_a:
  assumes "FindStringSubmatch ref = [whole, ''record:a'', name]"
  shows "DeleteObject AsString client ref =
     deleteRecords RecordA.Name RecordTypeA
       (fst (GetObject AsString client (ObjA (NewEmptyRecordA\<lparr>RecordA.Name := Some name\<rparr>))
          ref None))
       (concat (map (\<lambda>x. case x of ObjA a \<Rightarrow> if ref = RecordA.Ref a then [a] else []
                                | _ \<Rightarrow> [])
          (mockInfobloxObjects client)))"
proof -
  let ?t = "ObjA (NewEmptyRecordA\<lparr>RecordA.Name := Some name\<rparr>)"
  have g: "snd (GetObject AsString client ?t ref None) =
      Return (ResA (concat (map (\<lambda>x. case x of ObjA a \<Rightarrow> if ref = RecordA.Ref a then [a] else []
                                | _ \<Rightarrow> [])
          (mockInfobloxObjects client))))"
    by (simp only: GetObject_snd rangeObjects_bodyA mapOutcome.simps queryString_def
        option.case bodyA_no_query)
  show ?thesis
    unfolding DeleteObject_def Let_def assms
    by (simp add: case_found_A g)
qed

lemma FindStringSubmatch_examples:
  "FindStringSubmatch ''record:a/ZGVsZXRlZC5leGFtcGxlLmNvbQ==:deleted.example.com/default'' =
     [''record:a/ZGVsZXRlZC5leGFtcGxlLmNvbQ==:deleted.example.com/default'', ''record:a'',
      ''deleted.example.com'']"
  "FindStringSubmatch ''record:a/b2xkLmV4YW1wbGUuY29t:old.example.com/default'' =
     [''record:a/b2xkLmV4YW1wbGUuY29t:old.example.com/default'', ''record:a'',
      ''old.example.com'']"
  "FindStringSubmatch ''record:a/ZXhhbXBsZS5jb20=:example.com/default'' =
     [''record:a/ZXhhbXBsZS5jb20=:example.com/default'', ''record:a'', ''example.com'']"
  "FindStringSubmatch ''record:a/bm90aGVyZS5leGFtcGxlLmNvbQ==:nothere.example.com/default'' =
     [''record:a/bm90aGVyZS5leGFtcGxlLmNvbQ==:nothere.example.com/default'', ''record:a'',
      ''nothere.example.com'']"
  "FindStringSubmatch ''record:a/ZXhhbXBsZS5jb20='' = []"
  "FindStringSubmatch [] = []"
  by (simp_all add: matchHere_def)


lemma created_TXT:
  "mockInfobloxObjects (fst (CreateObject reverseAddrOfHost emptyClient (ObjTXT newTXT))) =
     [ObjTXT newTXT]"
  by (simp add: newTXT_def emptyClient_def Let_def)

lemma DeleteObject_stored:
  "DeleteObject derefOrEmpty storedClient (RecordA.Ref deletedA) =
     (storedClient
        \<lparr>deletedEndpoints := [NewEndpoint ''deleted.example.com'' RecordTypeA [[]]],
         getObjectRequests :=
           [\<lparr>request_obj = recordA, request_ref = RecordA.Ref deletedA,
             request_queryParams = [], verified = False\<rparr>]\<rparr>,
      Return ([], None))"
proof -
  have ref: "RecordA.Ref deletedA =
      ''record:a/ZGVsZXRlZC5leGFtcGxlLmNvbQ==:deleted.example.com/default''"
    by (simp add: deletedA_def)
  show ?thesis
    unfolding ref DeleteObject_record_a[OF FindStringSubmatch_examples(1)] GetObject_fst
    by (simp add: deleteRecords_def storedClient_def emptyClient_def deletedA_def
        queryString_def)
qed

subsection \<open>Creating a record and deleting it\<close>































































text \<open>
  Claim C5 asks that \<open>DeleteObject\<close> returns for every reference string, also for one the
  reference pattern does not match. The code reads \<open>result[1]\<close> of the nil slice there: on
  the empty string and on a reference cut short after the encoded name \<open>DeleteObject\<close>
  panics, and has written nothing.
\<close>

theorem DeleteObject_unparseable_panics:
  "DeleteObject AsString client [] = (client, Panic)
   \<and> DeleteObject AsString client ''record:a/ZXhhbXBsZS5jb20='' = (client, Panic)"
  using DeleteObject_no_match[OF FindStringSubmatch_examples(6), of AsString client]
    DeleteObject_no_match[OF FindStringSubmatch_examples(5), of AsString client]
  by (intro conjI)

text \<open>
  Claim C6, as amended. For every \<open>GetObject\<close> call with an empty reference and an empty
  name in the template object, the call returns a list of stored objects of the requested
  type, and a stored object of that type whose own \<open>Ref\<close> is not empty is in the list
  exactly when the query string contains the filter of the object's value and name
  (\<open>ipv4addr:<addr> name:<name>\<close> for A and PTR, \<open>name:<name>\<close> for CNAME,
  \<open>ipv4addrs:<first addr> name:<name>\<close> for HOST, \<open>text:<text> name:<name>\<close> for TXT) or
  the zone filter \<open>zone:<zone>\<close> of the object. For HOST the stored host records each
  have an address (the loop reads the first one); for PTR the template's \<open>PtrdName\<close>
  points to the empty string.
\<close>

theorem GetObject_filters:
  "(\<forall>t. AsString (RecordA.Name t) = [] \<longrightarrow>
     (\<exists>records.
      snd (GetObject AsString client (ObjA t) [] queryParams) = Return (ResA records) \<and>
      (\<forall>a. RecordA.Ref a \<noteq> [] \<longrightarrow>
         (a \<in> set records) =
         (ObjA a \<in> set (mockInfobloxObjects client) \<and>
          (Contains (queryString queryParams)
             (''ipv4addr:'' @ AsString (RecordA.Ipv4Addr a) @ '' name:'' @
              AsString (RecordA.Name a)) \<or>
           Contains (queryString queryParams) (''zone:'' @ RecordA.Zone a))))))
   \<and> (\<forall>t. AsString (RecordCNAME.Name t) = [] \<longrightarrow>
     (\<exists>records.
      snd (GetObject AsString client (ObjCNAME t) [] queryParams) = Return (ResCNAME records) \<and>
      (\<forall>a. RecordCNAME.Ref a \<noteq> [] \<longrightarrow>
         (a \<in> set records) =
         (ObjCNAME a \<in> set (mockInfobloxObjects client) \<and>
          (Contains (queryString queryParams) (''name:'' @ AsString (RecordCNAME.Name a)) \<or>
           Contains (queryString queryParams) (''zone:'' @ RecordCNAME.Zone a))))))
   \<and> (\<forall>t. AsString (HostRecord.Name t) = [] \<and>
        (\<forall>h. ObjHost h \<in> set (mockInfobloxObjects client) \<longrightarrow> HostRecord.Ipv4Addrs h \<noteq> []) \<longrightarrow>
     (\<exists>records.
      snd (GetObject AsString client (ObjHost t) [] queryParams) = Return (ResHost records) \<and>
      (\<forall>a. HostRecord.Ref a \<noteq> [] \<longrightarrow>
         (a \<in> set records) =
         (ObjHost a \<in> set (mockInfobloxObjects client) \<and>
          (Contains (queryString queryParams)
             (''ipv4addrs:'' @
              AsString (HostRecordIpv4Addr.Ipv4Addr (hd (HostRecord.Ipv4Addrs a))) @
              '' name:'' @ AsString (HostRecord.Name a)) \<or>
           Contains (queryString queryParams) (''zone:'' @ HostRecord.Zone a))))))
   \<and> (\<forall>t. AsString (RecordTXT.Name t) = [] \<longrightarrow>
     (\<exists>records.
      snd (GetObject AsString client (ObjTXT t) [] queryParams) = Return (ResTXT records) \<and>
      (\<forall>a. RecordTXT.Ref a \<noteq> [] \<longrightarrow>
         (a \<in> set records) =
         (ObjTXT a \<in> set (mockInfobloxObjects client) \<and>
          (Contains (queryString queryParams)
             (''text:'' @ AsString (RecordTXT.Text a) @ '' name:'' @
              AsString (RecordTXT.Name a)) \<or>
           Contains (queryString queryParams) (''zone:'' @ RecordTXT.Zone a))))))
   \<and> (\<forall>t. deref (RecordPTR.PtrdName t) = Some [] \<longrightarrow>
     (\<exists>records.
      snd (GetObject AsString client (ObjPTR t) [] queryParams) = Return (ResPTR records) \<and>
      (\<forall>a. RecordPTR.Ref a \<noteq> [] \<longrightarrow>
         (a \<in> set records) =
         (ObjPTR a \<in> set (mockInfobloxObjects client) \<and>
          (Contains (queryString queryParams)
             (''ipv4addr:'' @ AsString (RecordPTR.Ipv4Addr a) @ '' name:'' @
              AsString (RecordPTR.Name a)) \<or>
           Contains (queryString queryParams) (''zone:'' @ RecordPTR.Zone a))))))"
proof (intro conjI allI impI)
  fix t :: HostRecord assume "AsString (HostRecord.Name t) = [] \<and>
        (\<forall>h. ObjHost h \<in> set (mockInfobloxObjects client) \<longrightarrow> HostRecord.Ipv4Addrs h \<noteq> [])"
  then have 1: "AsString (HostRecord.Name t) = []"
    and 2: "\<forall>h. ObjHost h \<in> set (mockInfobloxObjects client) \<longrightarrow> HostRecord.Ipv4Addrs h \<noteq> []"
    by simp_all
  show "\<exists>records.
      snd (GetObject AsString client (ObjHost t) [] queryParams) = Return (ResHost records) \<and>
      (\<forall>a. HostRecord.Ref a \<noteq> [] \<longrightarrow>
         (a \<in> set records) =
         (ObjHost a \<in> set (mockInfobloxObjects client) \<and>
          (Contains (queryString queryParams)
             (''ipv4addrs:'' @
              AsString (HostRecordIpv4Addr.Ipv4Addr (hd (HostRecord.Ipv4Addrs a))) @
              '' name:'' @ AsString (HostRecord.Name a)) \<or>
           Contains (queryString queryParams) (''zone:'' @ HostRecord.Zone a))))"
    by (rule GetObject_filter_Host[of AsString t client, OF 1 2])
qed (erule GetObject_filter_A GetObject_filter_CNAME GetObject_filter_TXT GetObject_filter_PTR)+

theorem GetObject_filters_witness:
  "(\<exists>records.
      snd (GetObject derefOrEmpty storedClient (ObjA NewEmptyRecordA) []
             (Some ''zone:example.com'')) = Return (ResA records) \<and>
      deletedA \<in> set records)
   \<and> (\<exists>records.
      snd (GetObject derefOrEmpty storedClient (ObjA NewEmptyRecordA) []
             (Some ''zone:other.com'')) = Return (ResA records) \<and>
      deletedA \<notin> set records)"
proof (intro conjI)
  have t: "derefOrEmpty (RecordA.Name NewEmptyRecordA) = []"
    by (simp add: NewEmptyRecordA_def derefOrEmpty_def)
  have ref: "RecordA.Ref deletedA \<noteq> []"
    by (simp add: deletedA_def)
  have stored: "ObjA deletedA \<in> set (mockInfobloxObjects storedClient)"
    by (simp add: storedClient_def)
  have zone: "Contains (queryString (Some ''zone:example.com'')) (''zone:'' @ RecordA.Zone deletedA)"
    by (simp add: queryString_def deletedA_def)
  have other: "\<not> (Contains (queryString (Some ''zone:other.com''))
      (''ipv4addr:'' @ derefOrEmpty (RecordA.Ipv4Addr deletedA) @ '' name:'' @
       derefOrEmpty (RecordA.Name deletedA)) \<or>
     Contains (queryString (Some ''zone:other.com'')) (''zone:'' @ RecordA.Zone deletedA))"
    by (simp add: queryString_def deletedA_def derefOrEmpty_def)
  from GetObject_filters[of derefOrEmpty storedClient "Some ''zone:example.com''",
      THEN conjunct1, rule_format, of NewEmptyRecordA, OF t]
  obtain records where
    "snd (GetObject derefOrEmpty storedClient (ObjA NewEmptyRecordA) []
             (Some ''zone:example.com'')) = Return (ResA records)"
    and "\<forall>a. RecordA.Ref a \<noteq> [] \<longrightarrow>
            (a \<in> set records) =
            (ObjA a \<in> set (mockInfobloxObjects storedClient) \<and>
             (Contains (queryString (Some ''zone:example.com''))
                (''ipv4addr:'' @ derefOrEmpty (RecordA.Ipv4Addr a) @ '' name:'' @
                 derefOrEmpty (RecordA.Name a)) \<or>
              Contains (queryString (Some ''zone:example.com'')) (''zone:'' @ RecordA.Zone a)))"
    by blast
  with ref stored zone
  show "\<exists>records.
      snd (GetObject derefOrEmpty storedClient (ObjA NewEmptyRecordA) []
             (Some ''zone:example.com'')) = Return (ResA records) \<and>
      deletedA \<in> set records"
    by blast
  from GetObject_filters[of derefOrEmpty storedClient "Some ''zone:other.com''",
      THEN conjunct1, rule_format, of NewEmptyRecordA, OF t]
  obtain records where
    "snd (GetObject derefOrEmpty storedClient (ObjA NewEmptyRecordA) []
             (Some ''zone:other.com'')) = Return (ResA records)"
    and "\<forall>a. RecordA.Ref a \<noteq> [] \<longrightarrow>
            (a \<in> set records) =
            (ObjA a \<in> set (mockInfobloxObjects storedClient) \<and>
             (Contains (queryString (Some ''zone:other.com''))
                (''ipv4addr:'' @ derefOrEmpty (RecordA.Ipv4Addr a) @ '' name:'' @
                 derefOrEmpty (RecordA.Name a)) \<or>
              Contains (queryString (Some ''zone:other.com'')) (''zone:'' @ RecordA.Zone a)))"
    by blast
  with ref other
  show "\<exists>records.
      snd (GetObject derefOrEmpty storedClient (ObjA NewEmptyRecordA) []
             (Some ''zone:other.com'')) = Return (ResA records) \<and>
      deletedA \<notin> set records"
    by blast
qed

text \<open>
  The claim as it was stated covers every stored object and every template. A TXT record
  that \<open>CreateObject\<close> has stored has an empty \<open>Ref\<close>, which the empty reference of the
  call equals: the record is in the result of a query for another zone, which contains
  neither of its filters. A stored host record without addresses makes the call for host
  records panic, and so does a stored PTR record when the template's \<open>PtrdName\<close> is nil.
\<close>

theorem GetObject_filters_counterexample:
  "mockInfobloxObjects (fst (CreateObject reverseAddrOfHost emptyClient (ObjTXT newTXT))) =
     [ObjTXT newTXT]
   \<and> derefOrEmpty (RecordTXT.Name NewEmptyRecordTXT) = []
   \<and> snd (GetObject derefOrEmpty
             (fst (CreateObject reverseAddrOfHost emptyClient (ObjTXT newTXT)))
             (ObjTXT NewEmptyRecordTXT) [] (Some ''zone:other.com'')) =
       Return (ResTXT [newTXT])
   \<and> \<not> Contains ''zone:other.com''
          (''text:'' @ derefOrEmpty (RecordTXT.Text newTXT) @ '' name:'' @
           derefOrEmpty (RecordTXT.Name newTXT))
   \<and> \<not> Contains ''zone:other.com'' (''zone:'' @ RecordTXT.Zone newTXT)
   \<and> snd (GetObject derefOrEmpty
             (emptyClient\<lparr>mockInfobloxObjects := [ObjHost NewEmptyHostRecord]\<rparr>)
             (ObjHost NewEmptyHostRecord) [] (Some ''zone:example.com'')) = Panic
   \<and> snd (GetObject derefOrEmpty (emptyClient\<lparr>mockInfobloxObjects := [ObjPTR reversePTR]\<rparr>)
             (ObjPTR NewEmptyRecordPTR) [] (Some ''zone:example.com'')) = Panic"
proof (intro conjI)
  show "mockInfobloxObjects (fst (CreateObject reverseAddrOfHost emptyClient (ObjTXT newTXT))) =
     [ObjTXT newTXT]"
    by (rule created_TXT)
next
  show "snd (GetObject derefOrEmpty
             (fst (CreateObject reverseAddrOfHost emptyClient (ObjTXT newTXT)))
             (ObjTXT NewEmptyRecordTXT) [] (Some ''zone:other.com'')) =
       Return (ResTXT [newTXT])"
    unfolding GetObject_snd created_TXT
    by (simp add: Let_def newTXT_def NewEmptyRecordTXT_def derefOrEmpty_def queryString_def)
next
  show "snd (GetObject derefOrEmpty
             (emptyClient\<lparr>mockInfobloxObjects := [ObjHost NewEmptyHostRecord]\<rparr>)
             (ObjHost NewEmptyHostRecord) [] (Some ''zone:example.com'')) = Panic"
    unfolding GetObject_snd
    by (simp add: Let_def NewEmptyHostRecord_def derefOrEmpty_def)
next
  show "snd (GetObject derefOrEmpty (emptyClient\<lparr>mockInfobloxObjects := [ObjPTR reversePTR]\<rparr>)
             (ObjPTR NewEmptyRecordPTR) [] (Some ''zone:example.com'')) = Panic"
    unfolding GetObject_snd
    by (simp add: Let_def NewEmptyRecordPTR_def reversePTR_def)
qed (simp_all add: newTXT_def NewEmptyRecordTXT_def derefOrEmpty_def)

text \<open>
  Claim C8. \<open>UpdateObject\<close> and \<open>DeleteObject\<close> never modify the stored objects:
  \<open>UpdateObject\<close> only appends to \<open>updatedEndpoints\<close>, \<open>DeleteObject\<close> only appends to
  \<open>deletedEndpoints\<close> and to the log of \<open>GetObject\<close> requests, and every other field of
  the connector is as before. So every \<open>GetObject\<close> call gives after a \<open>DeleteObject\<close>
  what it gave before; a stored A record is still found by its reference after that
  reference was deleted.
\<close>

theorem Update_Delete_leave_store:
  "(mockInfobloxObjects (fst (UpdateObject client obj ref)) = mockInfobloxObjects client \<and>
    mockInfobloxZones (fst (UpdateObject client obj ref)) = mockInfobloxZones client \<and>
    createdEndpoints (fst (UpdateObject client obj ref)) = createdEndpoints client \<and>
    deletedEndpoints (fst (UpdateObject client obj ref)) = deletedEndpoints client \<and>
    getObjectRequests (fst (UpdateObject client obj ref)) = getObjectRequests client \<and>
    prefix (updatedEndpoints client) (updatedEndpoints (fst (UpdateObject client obj ref))))
   \<and> (mockInfobloxObjects (fst (DeleteObject AsString client ref)) = mockInfobloxObjects client \<and>
    mockInfobloxZones (fst (DeleteObject AsString client ref)) = mockInfobloxZones client \<and>
    createdEndpoints (fst (DeleteObject AsString client ref)) = createdEndpoints client \<and>
    updatedEndpoints (fst (DeleteObject AsString client ref)) = updatedEndpoints client \<and>
    prefix (deletedEndpoints client) (deletedEndpoints (fst (DeleteObject AsString client ref))) \<and>
    prefix (getObjectRequests client)
      (getObjectRequests (fst (DeleteObject AsString client ref))))
   \<and> snd (GetObject AsString (fst (DeleteObject AsString client ref)) obj' ref' queryParams) =
       snd (GetObject AsString client obj' ref' queryParams)
   \<and> (\<forall>a. ObjA a \<in> set (mockInfobloxObjects client) \<longrightarrow>
         (\<exists>records.
            snd (GetObject AsString (fst (DeleteObject AsString client (RecordA.Ref a))) (ObjA t)
                   (RecordA.Ref a) queryParams) = Return (ResA records) \<and>
            a \<in> set records))"
proof -
  have logs: "onlyLogs client (fst (DeleteObject AsString client r))" for r
    by (rule DeleteObject_onlyLogs)
  have same: "snd (GetObject AsString (fst (DeleteObject AsString client r)) obj' ref' q) =
       snd (GetObject AsString client obj' ref' q)" for r obj' ref' q
    using logs[of r] by (intro GetObject_snd_cong) (simp_all add: onlyLogs_def)
  have still: "\<exists>records.
            snd (GetObject AsString (fst (DeleteObject AsString client (RecordA.Ref a))) (ObjA t)
                   (RecordA.Ref a) queryParams) = Return (ResA records) \<and>
            a \<in> set records"
    if "ObjA a \<in> set (mockInfobloxObjects client)" for a
  proof -
    have "snd (GetObject AsString (fst (DeleteObject AsString client (RecordA.Ref a))) (ObjA t)
                   (RecordA.Ref a) queryParams) =
          Return (ResA (concat (map (\<lambda>x. theResult (bodyA AsString t (RecordA.Ref a)
            (queryString queryParams) x [])) (mockInfobloxObjects client))))"
      unfolding same by (simp only: GetObject_snd rangeObjects_bodyA mapOutcome.simps)
    with found_by_ref_A[OF that, of AsString t "queryString queryParams"]
    show ?thesis by blast
  qed
  have upd:
    "mockInfobloxObjects (fst (UpdateObject client obj ref)) = mockInfobloxObjects client \<and>
     mockInfobloxZones (fst (UpdateObject client obj ref)) = mockInfobloxZones client \<and>
     createdEndpoints (fst (UpdateObject client obj ref)) = createdEndpoints client \<and>
     deletedEndpoints (fst (UpdateObject client obj ref)) = deletedEndpoints client \<and>
     getObjectRequests (fst (UpdateObject client obj ref)) = getObjectRequests client \<and>
     prefix (updatedEndpoints client) (updatedEndpoints (fst (UpdateObject client obj ref)))"
    by (simp only: UpdateObject_fields UpdateObject_prefix)
  have del:
    "mockInfobloxObjects (fst (DeleteObject AsString client ref)) = mockInfobloxObjects client \<and>
     mockInfobloxZones (fst (DeleteObject AsString client ref)) = mockInfobloxZones client \<and>
     createdEndpoints (fst (DeleteObject AsString client ref)) = createdEndpoints client \<and>
     updatedEndpoints (fst (DeleteObject AsString client ref)) = updatedEndpoints client \<and>
     prefix (deletedEndpoints client)
       (deletedEndpoints (fst (DeleteObject AsString client ref))) \<and>
     prefix (getObjectRequests client)
       (getObjectRequests (fst (DeleteObject AsString client ref)))"
    using logs[of ref] by (simp only: onlyLogs_def)
  from upd del same[of ref obj' ref' queryParams] still show ?thesis
    by (intro conjI allI impI) (simp_all only:)
qed

theorem Update_Delete_leave_store_witness:
  "snd (DeleteObject derefOrEmpty storedClient (RecordA.Ref deletedA)) = Return ([], None)
   \<and> deletedEndpoints (fst (DeleteObject derefOrEmpty storedClient (RecordA.Ref deletedA))) =
       [NewEndpoint ''deleted.example.com'' RecordTypeA [[]]]
   \<and> mockInfobloxObjects (fst (DeleteObject derefOrEmpty storedClient (RecordA.Ref deletedA))) =
       [ObjA deletedA]
   \<and> (\<exists>records.
        snd (GetObject derefOrEmpty
               (fst (DeleteObject derefOrEmpty storedClient (RecordA.Ref deletedA)))
               (ObjA NewEmptyRecordA) (RecordA.Ref deletedA) None) = Return (ResA records) \<and>
        deletedA \<in> set records)"
proof -
  note inst = Update_Delete_leave_store[of storedClient _ "RecordA.Ref deletedA" derefOrEmpty
      _ _ None NewEmptyRecordA]
  have stored: "mockInfobloxObjects storedClient = [ObjA deletedA]"
    by (simp add: storedClient_def)
  have "ObjA deletedA \<in> set (mockInfobloxObjects storedClient)"
    by (simp add: stored)
  with inst have 4: "\<exists>records.
        snd (GetObject derefOrEmpty
               (fst (DeleteObject derefOrEmpty storedClient (RecordA.Ref deletedA)))
               (ObjA NewEmptyRecordA) (RecordA.Ref deletedA) None) = Return (ResA records) \<and>
        deletedA \<in> set records"
    by blast
  from inst stored
  have 3: "mockInfobloxObjects
      (fst (DeleteObject derefOrEmpty storedClient (RecordA.Ref deletedA))) = [ObjA deletedA]"
    by simp
  have 1: "snd (DeleteObject derefOrEmpty storedClient (RecordA.Ref deletedA)) = Return ([], None)"
    and 2: "deletedEndpoints
      (fst (DeleteObject derefOrEmpty storedClient (RecordA.Ref deletedA))) =
       [NewEndpoint ''deleted.example.com'' RecordTypeA [[]]]"
    by (simp_all add: DeleteObject_stored)
  from 1 2 3 4 show ?thesis by (intro conjI)
qed

text \<open>
  Claim C9. When the reference of a \<open>GetObject\<close> call for A records equals the \<open>Ref\<close>
  of a stored A record, and the name filter and the query filter pass for that record, the
  record is appended twice: the result holds it twice as often as the store does. The
  example after the theorem is a store and a call where the result is the one stored
  record, twice.
\<close>

theorem GetObject_appends_twice:
  "ref = RecordA.Ref a \<Longrightarrow>
   AsString (RecordA.Name t) = [] \<or> AsString (RecordA.Name t) = AsString (RecordA.Name a) \<Longrightarrow>
   Contains (queryString queryParams)
      (''ipv4addr:'' @ AsString (RecordA.Ipv4Addr a) @ '' name:'' @ AsString (RecordA.Name a)) \<or>
   Contains (queryString queryParams) (''zone:'' @ RecordA.Zone a) \<Longrightarrow>
   \<exists>records. snd (GetObject AsString client (ObjA t) ref queryParams) = Return (ResA records) \<and>
     count_list records a = 2 * count_list (mockInfobloxObjects client) (ObjA a)"
  by (simp add: GetObject_snd rangeObjects_bodyA count_found_A)

theorem GetObject_appends_twice_witness:
  "(\<exists>records.
      snd (GetObject derefOrEmpty storedClient (ObjA NewEmptyRecordA) (RecordA.Ref deletedA)
             (Some ''zone:example.com'')) = Return (ResA records) \<and>
      count_list records deletedA = 2)
   \<and> snd (GetObject derefOrEmpty storedClient (ObjA NewEmptyRecordA) (RecordA.Ref deletedA)
             (Some ''zone:example.com'')) = Return (ResA [deletedA, deletedA])"
proof (intro conjI)
  have 1: "RecordA.Ref deletedA = RecordA.Ref deletedA" by simp
  have 2: "derefOrEmpty (RecordA.Name NewEmptyRecordA) = [] \<or>
      derefOrEmpty (RecordA.Name NewEmptyRecordA) = derefOrEmpty (RecordA.Name deletedA)"
    by (simp add: NewEmptyRecordA_def derefOrEmpty_def)
  have 3: "Contains (queryString (Some ''zone:example.com''))
      (''ipv4addr:'' @ derefOrEmpty (RecordA.Ipv4Addr deletedA) @ '' name:'' @
       derefOrEmpty (RecordA.Name deletedA)) \<or>
     Contains (queryString (Some ''zone:example.com'')) (''zone:'' @ RecordA.Zone deletedA)"
    by (simp add: queryString_def deletedA_def)
  from GetObject_appends_twice[of "RecordA.Ref deletedA" deletedA derefOrEmpty NewEmptyRecordA
      "Some ''zone:example.com''" storedClient, OF 1 2 3]
  show "\<exists>records.
      snd (GetObject derefOrEmpty storedClient (ObjA NewEmptyRecordA) (RecordA.Ref deletedA)
             (Some ''zone:example.com'')) = Return (ResA records) \<and>
      count_list records deletedA = 2"
    by (simp add: storedClient_def)
next
  show "snd (GetObject derefOrEmpty storedClient (ObjA NewEmptyRecordA) (RecordA.Ref deletedA)
             (Some ''zone:example.com'')) = Return (ResA [deletedA, deletedA])"
    unfolding GetObject_snd
    by (simp add: storedClient_def Let_def NewEmptyRecordA_def derefOrEmpty_def queryString_def
        deletedA_def)
qed

end
